theory Spec2Isabelle
  imports Complex_Main
begin

section \<open>The LAMMPS Python wrapper (python/lammps/core.py)\<close>

text \<open>
  The wrapper class \<^verbatim>\<open>lammps\<close> forwards every method to one entry point of the native
  library through ctypes.  The native library is not part of the wrapper: it is modelled
  as the field \<open>lib\<close> of the wrapper object, a deterministic machine over an engine state
  \<open>'e\<close> that answers one \<open>native_call\<close> with a \<open>native_ret\<close>.  Every call the wrapper
  makes is appended to the field \<open>calls\<close>, so that "the native entry point is (not)
  invoked" is a statement about that list.

  Conventions.  \<^verbatim>\<open>bytes\<close> are a \<open>string\<close> (a list of 8-bit characters).  A Python
  \<^verbatim>\<open>str\<close> is represented by its UTF-8 encoding, also a \<open>string\<close>: \<^verbatim>\<open>encode\<close> is then the
  identity, and \<^verbatim>\<open>decode\<close> checks that the bytes are well-formed UTF-8 and raises
  \<^verbatim>\<open>UnicodeDecodeError\<close> otherwise.  A text argument that may be \<^verbatim>\<open>None\<close> is a
  \<open>string option\<close>, Python integers are \<open>int\<close>.  A C double returned by the library is a
  \<open>cdouble\<close> (a real number, an infinity or NaN); doubles that are only passed through
  are \<open>real\<close>.  An operation is a function from the wrapper object to a result and the
  updated object; a raised exception is \<open>Inl\<close>.  Where Python 2 and 3 differ, the model
  follows Python 3.
\<close>

subsection \<open>Python values, exceptions, native memory\<close>

datatype cell = CInt int | CDouble real

text \<open>A pointer returned by the library: its address (0 is \<^verbatim>\<open>NULL\<close>), the cells that
  may be read from it, and the C string found there when it is read as \<^verbatim>\<open>char *\<close>.\<close>

datatype cptr = CPtr (addr: nat) (cells: "cell list") (cstr: string)

datatype nonfinite = PosInf | NegInf | NaN

datatype cdouble = Finite real | NonFinite nonfinite

datatype pyval =
    PyNone
  | PyInt int
  | PyFloat real
  | PyNonFinite nonfinite
  | PyStr string
  | PyList "pyval list"
  | PyPointer cptr
  | PyIntArray "int list"
  | PyDoubleArray "real list"

datatype py_exc =
    MPIAbortException string
  | Exception string
  | ValueError
  | TypeError
  | UnboundLocalError
  | AttributeError
  | ArgumentError
  | UnicodeDecodeError
  | OverflowError
  | MemoryError
  | NativeMemoryFault

datatype cbuf = IntBuf "int list" | DoubleBuf "real list"

subsection \<open>The native library as seen through ctypes\<close>

text \<open>One constructor per entry point of \<^verbatim>\<open>self.lib\<close> that the modelled methods call,
  with the marshaled arguments.  The handle argument is \<^verbatim>\<open>self.lmp\<close>: \<open>None\<close> is Python's
  \<^verbatim>\<open>None\<close> (passed as \<^verbatim>\<open>NULL\<close>), \<open>Some p\<close> is \<^verbatim>\<open>c_void_p(p)\<close>.  A text buffer
  argument is represented by its size.\<close>

datatype native_call =
    Lammps_close "nat option"
  | Lammps_finalize
  | Lammps_config_has_exceptions
  | Lammps_has_error "nat option"
  | Lammps_get_last_error_message "nat option" nat
  | Lammps_file "nat option" string
  | Lammps_command "nat option" string
  | Lammps_get_natoms "nat option"
  | Lammps_get_thermo "nat option" string
  | Lammps_extract_setting "nat option" string
  | Lammps_extract_global_datatype "nat option" string
  | Lammps_extract_global "nat option" string
  | Lammps_extract_atom_datatype "nat option" string
  | Lammps_extract_atom "nat option" string
  | Lammps_extract_compute "nat option" string int int
  | Lammps_extract_fix "nat option" string int int int int
  | Lammps_extract_variable "nat option" string "string option"
  | Lammps_free cptr
  | Lammps_set_variable "nat option" string string
  | Lammps_gather_atoms "nat option" "string option" int int cbuf
  | Lammps_gather_atoms_concat "nat option" "string option" int int cbuf
  | Lammps_gather_atoms_subset "nat option" "string option" int int int "int list" cbuf
  | Lammps_scatter_atoms "nat option" "string option" int int cbuf
  | Lammps_scatter_atoms_subset "nat option" "string option" int int int "int list" cbuf
  | Lammps_gather "nat option" "string option" int int cbuf
  | Lammps_gather_concat "nat option" "string option" int int cbuf
  | Lammps_gather_subset "nat option" "string option" int int int "int list" cbuf
  | Lammps_scatter "nat option" "string option" int int cbuf
  | Lammps_scatter_subset "nat option" "string option" int int int "int list" cbuf
  | Lammps_create_atoms "nat option" int "int list option" "int list" "real list"
      "real list option" "int list option" int
  | Lammps_config_package_count
  | Lammps_config_package_name int nat
  | Lammps_style_count "nat option" string
  | Lammps_style_name "nat option" string int nat
  | Lammps_id_count "nat option" string
  | Lammps_id_name "nat option" string int nat
  | Lammps_plugin_count "nat option"
  | Lammps_plugin_name int nat

text \<open>What one native call leaves behind: the return value as read through each of
  the return types ctypes may have been told to expect, the bytes left in the text
  buffers, and the values written to a data buffer.\<close>

record native_ret =
  ret_int :: int
  ret_double :: cdouble
  ret_ptr :: cptr
  out_text :: string
  out_text2 :: string
  out_ints :: "int list"
  out_doubles :: "real list"

datatype restype =
    R_c_int | R_POINTER_c_int32 | R_POINTER_c_int64 | R_POINTER_c_double | R_c_char_p

subsection \<open>The wrapper object\<close>

text \<open>Besides the attributes of the Python object (\<^verbatim>\<open>lib\<close>, \<^verbatim>\<open>lmp\<close>, \<^verbatim>\<open>opened\<close>, the two
  caches, the widths of \<^verbatim>\<open>c_tagint\<close> and \<^verbatim>\<open>c_imageint\<close> chosen in \<^verbatim>\<open>__init__\<close> from
  \<^verbatim>\<open>extract_setting\<close>), the record holds what the model adds: the engine state, the list
  of calls, the return type last set on \<^verbatim>\<open>lammps_extract_global\<close>, and two facts about
  the host: the largest \<^verbatim>\<open>Py_ssize_t\<close> and the size in bytes of the largest array it can
  allocate.\<close>

record 'e lammps =
  lib :: "'e \<Rightarrow> native_call \<Rightarrow> native_ret \<times> 'e"
  engine :: 'e
  calls :: "native_call list"
  lmp :: "nat option"
  opened :: int
  extract_global_restype :: restype
  cached_installed_packages :: "string list option"
  cached_available_styles :: "(string \<Rightarrow> string list option) option"
  c_tagint_bits :: nat
  c_imageint_bits :: nat
  ssize_max :: int
  host_memory :: int

type_synonym ('e, 'a) py_method = "'e lammps \<Rightarrow> (py_exc + 'a) \<times> 'e lammps"

text \<open>\<^verbatim>\<open>self.lib.f(args)\<close>: the library answers and moves to its next state; the call is
  recorded.\<close>

definition invoke :: "native_call \<Rightarrow> 'e lammps \<Rightarrow> native_ret \<times> 'e lammps" where
  "invoke c s =
     (case lib s (engine s) c of
        (r, e') \<Rightarrow> (r, s\<lparr>engine := e', calls := calls s @ [c]\<rparr>))"

text \<open>Truth value of \<^verbatim>\<open>self.lmp\<close>: \<^verbatim>\<open>None\<close> and \<^verbatim>\<open>c_void_p(NULL)\<close> are false.\<close>

fun truthy_handle :: "nat option \<Rightarrow> bool" where
  "truthy_handle None = False"
| "truthy_handle (Some p) = (p \<noteq> 0)"

text \<open>Truth value of a text argument: \<^verbatim>\<open>None\<close> and the empty string are false.\<close>

fun truthy_text :: "string option \<Rightarrow> bool" where
  "truthy_text None = False"
| "truthy_text (Some t) = (t \<noteq> [])"

text \<open>\<^verbatim>\<open>create_string_buffer(n)\<close> followed by \<^verbatim>\<open>sb.value\<close>: the bytes of the buffer up
  to the first NUL, never more than the \<open>n\<close> bytes the buffer has.\<close>

definition string_buffer_value :: "nat \<Rightarrow> string \<Rightarrow> string" where
  "string_buffer_value n written = takeWhile (\<lambda>c. c \<noteq> CHR 0x00) (take n written)"

subsection \<open>Text: UTF-8 and \<^verbatim>\<open>strip\<close>\<close>

text \<open>\<^verbatim>\<open>bytes.decode()\<close> is strict UTF-8: it rejects a stray or missing continuation
  byte, an overlong form, a surrogate and a code point above \<open>0x10FFFF\<close>.
  \<open>utf8_decode\<close> gives the code points of well-formed bytes.\<close>

definition is_cont :: "nat \<Rightarrow> bool" where
  "is_cont b = (128 \<le> b \<and> b \<le> 191)"

fun utf8_decode :: "nat list \<Rightarrow> nat list option" where
  "utf8_decode [] = Some []"
| "utf8_decode (b0 # bs) =
     (if b0 < 128 then map_option (Cons b0) (utf8_decode bs)
      else if 194 \<le> b0 \<and> b0 \<le> 223 then
        (case bs of
           b1 # r \<Rightarrow>
             if is_cont b1
             then map_option (Cons ((b0 - 192) * 64 + (b1 - 128))) (utf8_decode r)
             else None
         | [] \<Rightarrow> None)
      else if 224 \<le> b0 \<and> b0 \<le> 239 then
        (case bs of
           b1 # b2 # r \<Rightarrow>
             if is_cont b1 \<and> is_cont b2
                \<and> (if b0 = 224 then 160 \<le> b1 else True)
                \<and> (if b0 = 237 then b1 \<le> 159 else True)
             then map_option
                    (Cons ((b0 - 224) * 4096 + (b1 - 128) * 64 + (b2 - 128)))
                    (utf8_decode r)
             else None
         | _ \<Rightarrow> None)
      else if 240 \<le> b0 \<and> b0 \<le> 244 then
        (case bs of
           b1 # b2 # b3 # r \<Rightarrow>
             if is_cont b1 \<and> is_cont b2 \<and> is_cont b3
                \<and> (if b0 = 240 then 144 \<le> b1 else True)
                \<and> (if b0 = 244 then b1 \<le> 143 else True)
             then map_option
                    (Cons ((b0 - 240) * 262144 + (b1 - 128) * 4096 + (b2 - 128) * 64 + (b3 - 128)))
                    (utf8_decode r)
             else None
         | _ \<Rightarrow> None)
      else None)"

definition code_points :: "string \<Rightarrow> nat list option" where
  "code_points b = utf8_decode (map of_char b)"

text \<open>\<^verbatim>\<open>b.decode()\<close>: the \<^verbatim>\<open>str\<close>, represented by the same bytes, or the error.\<close>

definition decode :: "string \<Rightarrow> py_exc + string" where
  "decode b = (case code_points b of None \<Rightarrow> Inl UnicodeDecodeError | Some cps \<Rightarrow> Inr b)"

fun encode_code_point :: "nat \<Rightarrow> nat list" where
  "encode_code_point c =
     (if c < 128 then [c]
      else if c < 2048 then [192 + c div 64, 128 + c mod 64]
      else if c < 65536 then [224 + c div 4096, 128 + (c div 64) mod 64, 128 + c mod 64]
      else [240 + c div 262144, 128 + (c div 4096) mod 64, 128 + (c div 64) mod 64,
            128 + c mod 64])"

definition utf8_encode :: "nat list \<Rightarrow> string" where
  "utf8_encode cps = map char_of (concat (map encode_code_point cps))"

text \<open>The characters \<^verbatim>\<open>str.strip()\<close> removes: those for which \<^verbatim>\<open>str.isspace\<close> is true.\<close>

definition py_isspace :: "nat \<Rightarrow> bool" where
  "py_isspace c =
     ((9 \<le> c \<and> c \<le> 13) \<or> (28 \<le> c \<and> c \<le> 32) \<or> c = 133 \<or> c = 160 \<or> c = 5760
      \<or> (8192 \<le> c \<and> c \<le> 8202) \<or> c = 8232 \<or> c = 8233 \<or> c = 8239 \<or> c = 8287
      \<or> c = 12288)"

definition strip_code_points :: "nat list \<Rightarrow> nat list" where
  "strip_code_points cps = rev (dropWhile py_isspace (rev (dropWhile py_isspace cps)))"

text \<open>\<^verbatim>\<open>b.decode().strip()\<close>.\<close>

definition decode_strip :: "string \<Rightarrow> py_exc + string" where
  "decode_strip b =
     (case code_points b of
        None \<Rightarrow> Inl UnicodeDecodeError
      | Some cps \<Rightarrow> Inr (utf8_encode (strip_code_points cps)))"

subsection \<open>The error-translation shim\<close>

text \<open>
\<^verbatim>\<open>
  @property
  def has_exceptions(self):
    return self.lib.lammps_config_has_exceptions() != 0
\<close>\<close>

definition has_exceptions :: "'e lammps \<Rightarrow> bool \<times> 'e lammps" where
  "has_exceptions s =
     (case invoke Lammps_config_has_exceptions s of (r, s1) \<Rightarrow> (ret_int r \<noteq> 0, s1))"

text \<open>
\<^verbatim>\<open>
  @property
  def _lammps_exception(self):
    sb = create_string_buffer(100)
    error_type = self.lib.lammps_get_last_error_message(self.lmp, sb, 100)
    error_msg = sb.value.decode().strip()

    if error_type == 2:
      return MPIAbortException(error_msg)
    return Exception(error_msg)
\<close>\<close>

text \<open>The property returns an exception object (\<open>Inr\<close>), unless computing it raises
  (\<open>Inl\<close>), which \<^verbatim>\<open>decode\<close> does on bytes that are not UTF-8.\<close>

definition lammps_exception :: "'e lammps \<Rightarrow> (py_exc + py_exc) \<times> 'e lammps" where
  "lammps_exception s =
     (case invoke (Lammps_get_last_error_message (lmp s) 100) s of
        (r, s1) \<Rightarrow>
          (let error_type = ret_int r in
           case decode_strip (string_buffer_value 100 (out_text r)) of
             Inl e \<Rightarrow> (Inl e, s1)
           | Inr error_msg \<Rightarrow>
               if error_type = 2 then (Inr (MPIAbortException error_msg), s1)
               else (Inr (Exception error_msg), s1)))"

text \<open>
\<^verbatim>\<open>
  def __exit__(self, type, value, traceback):
    if self.lmp.has_exceptions and self.lmp.lib.lammps_has_error(self.lmp.lmp):
      raise self.lmp._lammps_exception
\<close>
  The result is the exception raised by \<^verbatim>\<open>__exit__\<close>, if any: the one the property
  returned, or the one raised while computing it.\<close>

definition ExceptionCheck_exit :: "'e lammps \<Rightarrow> py_exc option \<times> 'e lammps" where
  "ExceptionCheck_exit s =
     (case has_exceptions s of
        (he, s1) \<Rightarrow>
          if he then
            (case invoke (Lammps_has_error (lmp s1)) s1 of
               (r, s2) \<Rightarrow>
                 if ret_int r \<noteq> 0 then
                   (case lammps_exception s2 of
                      (Inl e, s3) \<Rightarrow> (Some e, s3)
                    | (Inr e, s3) \<Rightarrow> (Some e, s3))
                 else (None, s2))
          else (None, s1))"

text \<open>\<^verbatim>\<open>with ExceptionCheck(self): body\<close>.  \<^verbatim>\<open>__enter__\<close> does nothing; \<^verbatim>\<open>__exit__\<close>
  runs however the body ends.  An exception raised by \<^verbatim>\<open>__exit__\<close> replaces the
  body's outcome; otherwise the body's result or exception stands.\<close>

definition with_ExceptionCheck :: "('e, 'a) py_method \<Rightarrow> ('e, 'a) py_method" where
  "with_ExceptionCheck body s =
     (case body s of
        (res, s1) \<Rightarrow>
          (case ExceptionCheck_exit s1 of
             (Some e, s2) \<Rightarrow> (Inl e, s2)
           | (None, s2) \<Rightarrow> (res, s2)))"

subsection \<open>Handle lifecycle\<close>

text \<open>
\<^verbatim>\<open>
  def __del__(self):
    if self.lmp and self.opened:
      self.lib.lammps_close(self.lmp)
      self.opened = 0

  def close(self):
    if self.opened: self.lib.lammps_close(self.lmp)
    self.lmp = None
    self.opened = 0

  def finalize(self):
    if self.opened: self.lib.lammps_close(self.lmp)
    self.lmp = None
    self.opened = 0
    self.lib.lammps_finalize()
\<close>\<close>

definition del :: "'e lammps \<Rightarrow> 'e lammps" where
  "del s =
     (if truthy_handle (lmp s) \<and> opened s \<noteq> 0
      then (snd (invoke (Lammps_close (lmp s)) s))\<lparr>opened := 0\<rparr>
      else s)"

definition close :: "'e lammps \<Rightarrow> 'e lammps" where
  "close s =
     (let s1 = (if opened s \<noteq> 0 then snd (invoke (Lammps_close (lmp s)) s) else s)
      in s1\<lparr>lmp := None, opened := 0\<rparr>)"

definition finalize :: "'e lammps \<Rightarrow> 'e lammps" where
  "finalize s =
     (let s1 = (if opened s \<noteq> 0 then snd (invoke (Lammps_close (lmp s)) s) else s);
          s2 = s1\<lparr>lmp := None, opened := 0\<rparr>
      in snd (invoke Lammps_finalize s2))"

subsection \<open>Commands and scalar queries\<close>


definition command :: "string option \<Rightarrow> ('e, pyval) py_method" where
  "command cmd s =
     (if truthy_text cmd then
        with_ExceptionCheck
          (\<lambda>s. case invoke (Lammps_command (lmp s) (the cmd)) s of
                  (r, s1) \<Rightarrow> (Inr PyNone, s1)) s
      else (Inr PyNone, s))"

text \<open>
\<^verbatim>\<open>
  def get_natoms(self):
    return int(self.lib.lammps_get_natoms(self.lmp))
\<close>
  \<^verbatim>\<open>int()\<close> of a double truncates towards zero; it raises \<^verbatim>\<open>ValueError\<close> on NaN and
  \<^verbatim>\<open>OverflowError\<close> on an infinity.\<close>

definition py_int_of_float :: "real \<Rightarrow> int" where
  "py_int_of_float x = (if 0 \<le> x then \<lfloor>x\<rfloor> else \<lceil>x\<rceil>)"

fun py_int_of_cdouble :: "cdouble \<Rightarrow> py_exc + int" where
  "py_int_of_cdouble (Finite x) = Inr (py_int_of_float x)"
| "py_int_of_cdouble (NonFinite NaN) = Inl ValueError"
| "py_int_of_cdouble (NonFinite PosInf) = Inl OverflowError"
| "py_int_of_cdouble (NonFinite NegInf) = Inl OverflowError"


definition get_natoms :: "('e, int) py_method" where
  "get_natoms s =
     (case invoke (Lammps_get_natoms (lmp s)) s of
        (r, s1) \<Rightarrow> (py_int_of_cdouble (ret_double r), s1))"




subsection \<open>ctypes integers and arrays\<close>

text \<open>ctypes checks no overflow when a Python integer is stored in a C integer of
  \<open>bits\<close> bits (an array element, or an argument declared \<^verbatim>\<open>c_int\<close>): the value wraps.\<close>

definition wrap_signed :: "nat \<Rightarrow> int \<Rightarrow> int" where
  "wrap_signed bits v = (v + 2 ^ (bits - 1)) mod 2 ^ bits - 2 ^ (bits - 1)"

definition c_int :: "int \<Rightarrow> int" where
  "c_int v = wrap_signed 32 v"

text \<open>\<^verbatim>\<open>(ctype * n)()\<close> for an item of \<open>w\<close> bytes: the length must fit a \<^verbatim>\<open>Py_ssize_t\<close>
  (\<^verbatim>\<open>OverflowError\<close>), must not be negative (\<^verbatim>\<open>ValueError\<close>), the size in bytes must fit
  as well (\<^verbatim>\<open>OverflowError\<close>), and the host must be able to allocate it
  (\<^verbatim>\<open>MemoryError\<close>).  The result is the length of the new, zero-filled array.\<close>

definition new_array :: "'e lammps \<Rightarrow> nat \<Rightarrow> int \<Rightarrow> py_exc + nat" where
  "new_array s w n =
     (if n > ssize_max s \<or> n < - ssize_max s - 1 then Inl OverflowError
      else if n < 0 then Inl ValueError
      else if n * int w > ssize_max s then Inl OverflowError
      else if n * int w > host_memory s then Inl MemoryError
      else Inr (nat n))"

subsection \<open>Typed extraction\<close>

text \<open>The symbolic constants come from \<^verbatim>\<open>from .constants import *\<close>; that module is not
  among the sources, so the methods take the constants as a parameter.\<close>

record constants =
  LAMMPS_AUTODETECT :: "int option"
  LAMMPS_INT :: int
  LAMMPS_INT_2D :: int
  LAMMPS_DOUBLE :: int
  LAMMPS_DOUBLE_2D :: int
  LAMMPS_INT64 :: int
  LAMMPS_INT64_2D :: int
  LAMMPS_STRING :: int
  LMP_STYLE_GLOBAL :: int
  LMP_STYLE_ATOM :: int
  LMP_STYLE_LOCAL :: int
  LMP_TYPE_SCALAR :: int
  LMP_TYPE_VECTOR :: int
  LMP_TYPE_ARRAY :: int
  LMP_SIZE_VECTOR :: int
  LMP_SIZE_ROWS :: int
  LMP_SIZE_COLS :: int
  LMP_VAR_EQUAL :: int
  LMP_VAR_ATOM :: int

text \<open>Reading through a ctypes pointer: \<^verbatim>\<open>ptr[i]\<close> on a \<^verbatim>\<open>NULL\<close> pointer raises
  \<^verbatim>\<open>ValueError("NULL pointer access")\<close>; ctypes checks no bounds, so a read past the
  cells the library provided is undefined in C and is a \<open>NativeMemoryFault\<close> here.\<close>

definition deref :: "cptr \<Rightarrow> nat \<Rightarrow> py_exc + cell" where
  "deref p i =
     (if addr p = 0 then Inl ValueError
      else if i < length (cells p) then Inr (cells p ! i)
      else Inl NativeMemoryFault)"

text \<open>\<^verbatim>\<open>ptr[0], ..., ptr[n-1]\<close> read in order; the first failing read ends the loop.\<close>

definition read_cells :: "cptr \<Rightarrow> nat \<Rightarrow> py_exc + cell list" where
  "read_cells p n =
     (if n = 0 then Inr []
      else if addr p = 0 then Inl ValueError
      else if n \<le> length (cells p) then Inr (take n (cells p))
      else Inl NativeMemoryFault)"

fun cell_val :: "cell \<Rightarrow> pyval" where
  "cell_val (CInt i) = PyInt i"
| "cell_val (CDouble x) = PyFloat x"

datatype target_type = T_int | T_float

fun apply_target_type :: "target_type \<Rightarrow> cell \<Rightarrow> pyval" where
  "apply_target_type T_int (CInt i) = PyInt i"
| "apply_target_type T_int (CDouble x) = PyInt (py_int_of_float x)"
| "apply_target_type T_float (CInt i) = PyFloat (of_int i)"
| "apply_target_type T_float (CDouble x) = PyFloat x"

text \<open>Truth value of the result of \<^verbatim>\<open>lammps_extract_global\<close> under the return type
  that is in force: a pointer object is true unless \<^verbatim>\<open>NULL\<close>, a \<^verbatim>\<open>c_char_p\<close> result is
  \<^verbatim>\<open>None\<close> or \<^verbatim>\<open>bytes\<close> (false when empty), a \<^verbatim>\<open>c_int\<close> result is an integer.\<close>

fun truthy_result :: "restype \<Rightarrow> native_ret \<Rightarrow> bool" where
  "truthy_result R_c_int r = (ret_int r \<noteq> 0)"
| "truthy_result R_c_char_p r = (addr (ret_ptr r) \<noteq> 0 \<and> cstr (ret_ptr r) \<noteq> [])"
| "truthy_result rt r = (addr (ret_ptr r) \<noteq> 0)"

text \<open>
\<^verbatim>\<open>
  def extract_global_datatype(self, name):
    if name: name = name.encode()
    else: return None
    return self.lib.lammps_extract_global_datatype(self.lmp, name)
\<close>\<close>

definition extract_global_datatype :: "string option \<Rightarrow> 'e lammps \<Rightarrow> int option \<times> 'e lammps" where
  "extract_global_datatype name s =
     (if truthy_text name then
        (case invoke (Lammps_extract_global_datatype (lmp s) (the name)) s of
           (r, s1) \<Rightarrow> (Some (ret_int r), s1))
      else (None, s))"

text \<open>
\<^verbatim>\<open>
  def extract_global(self, name, dtype=LAMMPS_AUTODETECT):
    if dtype == LAMMPS_AUTODETECT:
      dtype = self.extract_global_datatype(name)

    # set length of vector for items that are not a scalar
    vec_dict = { 'boxlo':3, 'boxhi':3, 'sublo':3, 'subhi':3,
                 'sublo_lambda':3, 'subhi_lambda':3, 'periodicity':3 }
    if name in vec_dict:
      veclen = vec_dict[name]
    elif name == 'respa_dt':
      veclen = self.extract_global('respa_levels',LAMMPS_INT)
    else:
      veclen = 1

    if name: name = name.encode()
    else: return None

    if dtype == LAMMPS_INT:
      self.lib.lammps_extract_global.restype = POINTER(c_int32)
      target_type = int
    elif dtype == LAMMPS_INT64:
      self.lib.lammps_extract_global.restype = POINTER(c_int64)
      target_type = int
    elif dtype == LAMMPS_DOUBLE:
      self.lib.lammps_extract_global.restype = POINTER(c_double)
      target_type = float
    elif dtype == LAMMPS_STRING:
      self.lib.lammps_extract_global.restype = c_char_p

    ptr = self.lib.lammps_extract_global(self.lmp, name)
    if ptr:
      if dtype == LAMMPS_STRING:
        return ptr.decode('utf-8')
      if veclen > 1:
        result = []
        for i in range(0,veclen):
          result.append(target_type(ptr[i]))
        return result
      else: return target_type(ptr[0])
    return None
\<close>
  The part from \<^verbatim>\<open>if name:\<close> on is \<open>extract_global_fetch\<close>.  When \<^verbatim>\<open>dtype\<close> is none of
  the four constants, the return type of the previous call stays in force and
  \<^verbatim>\<open>target_type\<close> is unbound.  \<^verbatim>\<open>veclen\<close> is any Python value: comparing \<^verbatim>\<open>None\<close> with 1
  raises \<^verbatim>\<open>TypeError\<close>.  Should the constants make an earlier branch of the chain win
  over \<^verbatim>\<open>LAMMPS_STRING\<close>, \<^verbatim>\<open>ptr\<close> is a pointer object and \<^verbatim>\<open>ptr.decode\<close> raises
  \<^verbatim>\<open>AttributeError\<close>.\<close>

definition vec_dict :: "string \<Rightarrow> int option" where
  "vec_dict name =
     (if name \<in> set [''boxlo'', ''boxhi'', ''sublo'', ''subhi'',
                      ''sublo_lambda'', ''subhi_lambda'', ''periodicity'']
      then Some 3 else None)"

definition extract_global_fetch ::
  "constants \<Rightarrow> string option \<Rightarrow> int option \<Rightarrow> pyval \<Rightarrow> ('e, pyval) py_method" where
  "extract_global_fetch K name dtype veclen s =
     (if \<not> truthy_text name then (Inr PyNone, s)
      else
        let rt = (if dtype = Some (LAMMPS_INT K) then R_POINTER_c_int32
                  else if dtype = Some (LAMMPS_INT64 K) then R_POINTER_c_int64
                  else if dtype = Some (LAMMPS_DOUBLE K) then R_POINTER_c_double
                  else if dtype = Some (LAMMPS_STRING K) then R_c_char_p
                  else extract_global_restype s);
            target = (if dtype = Some (LAMMPS_INT K) then Some T_int
                      else if dtype = Some (LAMMPS_INT64 K) then Some T_int
                      else if dtype = Some (LAMMPS_DOUBLE K) then Some T_float
                      else None)
        in case invoke (Lammps_extract_global (lmp s) (the name))
                  (s\<lparr>extract_global_restype := rt\<rparr>) of
             (r, s1) \<Rightarrow>
               if truthy_result rt r then
                 (if dtype = Some (LAMMPS_STRING K) then
                    (if rt = R_c_char_p then
                       (case decode (cstr (ret_ptr r)) of
                          Inl e \<Rightarrow> (Inl e, s1)
                        | Inr t \<Rightarrow> (Inr (PyStr t), s1))
                     else (Inl AttributeError, s1))
                  else
                    (case veclen of
                       PyInt n \<Rightarrow>
                         (case target of
                            None \<Rightarrow> (Inl UnboundLocalError, s1)
                          | Some t \<Rightarrow>
                              if n > 1 then
                                (case read_cells (ret_ptr r) (nat n) of
                                   Inl e \<Rightarrow> (Inl e, s1)
                                 | Inr cs \<Rightarrow> (Inr (PyList (map (apply_target_type t) cs)), s1))
                              else
                                (case deref (ret_ptr r) 0 of
                                   Inl e \<Rightarrow> (Inl e, s1)
                                 | Inr c \<Rightarrow> (Inr (apply_target_type t c), s1)))
                     | _ \<Rightarrow> (Inl TypeError, s1)))
               else (Inr PyNone, s1))"

text \<open>The method calls itself once, for \<^verbatim>\<open>'respa_dt'\<close>, with the name
  \<^verbatim>\<open>'respa_levels'\<close>, which is neither in \<^verbatim>\<open>vec_dict\<close> nor \<^verbatim>\<open>'respa_dt'\<close>; the inner
  call is the first argument of \<open>extract_global_with\<close>.\<close>

definition extract_global_with ::
  "('e, pyval) py_method \<Rightarrow> constants \<Rightarrow> string option \<Rightarrow> int option \<Rightarrow> ('e, pyval) py_method" where
  "extract_global_with inner K name dtype s =
     (case (if dtype = LAMMPS_AUTODETECT K then extract_global_datatype name s else (dtype, s)) of
        (dtype1, s1) \<Rightarrow>
          (case (if name \<noteq> None \<and> vec_dict (the name) \<noteq> None
                 then (Inr (PyInt (the (vec_dict (the name)))), s1)
                 else if name = Some ''respa_dt'' then inner s1
                 else (Inr (PyInt 1), s1)) of
             (Inl e, s2) \<Rightarrow> (Inl e, s2)
           | (Inr veclen, s2) \<Rightarrow> extract_global_fetch K name dtype1 veclen s2))"

definition extract_global :: "constants \<Rightarrow> string option \<Rightarrow> int option \<Rightarrow> ('e, pyval) py_method" where
  "extract_global K name dtype =
     extract_global_with
       (extract_global_with (\<lambda>s. (Inr PyNone, s)) K (Some ''respa_levels'') (Some (LAMMPS_INT K)))
       K name dtype"

text \<open>
\<^verbatim>\<open>
  def extract_atom_datatype(self, name):
    if name: name = name.encode()
    else: return None
    return self.lib.lammps_extract_atom_datatype(self.lmp, name)

  def extract_atom(self, name, dtype=LAMMPS_AUTODETECT):
    if dtype == LAMMPS_AUTODETECT:
      dtype = self.extract_atom_datatype(name)

    if name: name = name.encode()
    else: return None

    if dtype == LAMMPS_INT:
      self.lib.lammps_extract_atom.restype = POINTER(c_int32)
    elif dtype == LAMMPS_INT_2D:
      self.lib.lammps_extract_atom.restype = POINTER(POINTER(c_int32))
    elif dtype == LAMMPS_DOUBLE:
      self.lib.lammps_extract_atom.restype = POINTER(c_double)
    elif dtype == LAMMPS_DOUBLE_2D:
      self.lib.lammps_extract_atom.restype = POINTER(POINTER(c_double))
    elif dtype == LAMMPS_INT64:
      self.lib.lammps_extract_atom.restype = POINTER(c_int64)
    elif dtype == LAMMPS_INT64_2D:
      self.lib.lammps_extract_atom.restype = POINTER(POINTER(c_int64))
    else: return None

    ptr = self.lib.lammps_extract_atom(self.lmp, name)
    if ptr: return ptr
    else:   return None
\<close>\<close>

definition extract_atom_datatype :: "string option \<Rightarrow> 'e lammps \<Rightarrow> int option \<times> 'e lammps" where
  "extract_atom_datatype name s =
     (if truthy_text name then
        (case invoke (Lammps_extract_atom_datatype (lmp s) (the name)) s of
           (r, s1) \<Rightarrow> (Some (ret_int r), s1))
      else (None, s))"

definition extract_atom :: "constants \<Rightarrow> string option \<Rightarrow> int option \<Rightarrow> ('e, pyval) py_method" where
  "extract_atom K name dtype s =
     (case (if dtype = LAMMPS_AUTODETECT K then extract_atom_datatype name s else (dtype, s)) of
        (dtype1, s1) \<Rightarrow>
          if \<not> truthy_text name then (Inr PyNone, s1)
          else if dtype1 = Some (LAMMPS_INT K) \<or> dtype1 = Some (LAMMPS_INT_2D K)
                  \<or> dtype1 = Some (LAMMPS_DOUBLE K) \<or> dtype1 = Some (LAMMPS_DOUBLE_2D K)
                  \<or> dtype1 = Some (LAMMPS_INT64 K) \<or> dtype1 = Some (LAMMPS_INT64_2D K)
          then
            (case invoke (Lammps_extract_atom (lmp s1) (the name)) s1 of
               (r, s2) \<Rightarrow>
                 if addr (ret_ptr r) \<noteq> 0 then (Inr (PyPointer (ret_ptr r)), s2)
                 else (Inr PyNone, s2))
          else (Inr PyNone, s1))"

text \<open>\<^verbatim>\<open>with ExceptionCheck(self): ptr = self.lib.f(...)\<close>, the pattern of the remaining
  extraction methods; the return type is set just before, on every path.\<close>

definition checked_call :: "('e lammps \<Rightarrow> native_call) \<Rightarrow> ('e, cptr) py_method" where
  "checked_call entry =
     with_ExceptionCheck
       (\<lambda>s. case invoke (entry s) s of (r, s1) \<Rightarrow> (Inr (ret_ptr r), s1))"

text \<open>\<^verbatim>\<open>return ptr[0]\<close> and \<^verbatim>\<open>return ptr\<close> after such a call.\<close>

definition return_item0 :: "(py_exc + cptr) \<times> 'e lammps \<Rightarrow> (py_exc + pyval) \<times> 'e lammps" where
  "return_item0 x =
     (case x of
        (Inl e, s) \<Rightarrow> (Inl e, s)
      | (Inr p, s) \<Rightarrow>
          (case deref p 0 of Inl e \<Rightarrow> (Inl e, s) | Inr c \<Rightarrow> (Inr (cell_val c), s)))"

definition return_pointer :: "(py_exc + cptr) \<times> 'e lammps \<Rightarrow> (py_exc + pyval) \<times> 'e lammps" where
  "return_pointer x =
     (case x of (Inl e, s) \<Rightarrow> (Inl e, s) | (Inr p, s) \<Rightarrow> (Inr (PyPointer p), s))"

text \<open>
\<^verbatim>\<open>
  def extract_compute(self,id,style,type):
    if id: id = id.encode()
    else: return None

    if type == LMP_TYPE_SCALAR:
      if style == LMP_STYLE_GLOBAL:
        self.lib.lammps_extract_compute.restype = POINTER(c_double)
        with ExceptionCheck(self):
          ptr = self.lib.lammps_extract_compute(self.lmp,id,style,type)
        return ptr[0]
      elif style == LMP_STYLE_ATOM:
        return None
      elif style == LMP_STYLE_LOCAL:
        self.lib.lammps_extract_compute.restype = POINTER(c_int)
        with ExceptionCheck(self):
          ptr = self.lib.lammps_extract_compute(self.lmp,id,style,type)
        return ptr[0]

    elif type == LMP_TYPE_VECTOR:
      self.lib.lammps_extract_compute.restype = POINTER(c_double)
      with ExceptionCheck(self):
        ptr = self.lib.lammps_extract_compute(self.lmp,id,style,type)
      return ptr

    elif type == LMP_TYPE_ARRAY:
      self.lib.lammps_extract_compute.restype = POINTER(POINTER(c_double))
      with ExceptionCheck(self):
        ptr = self.lib.lammps_extract_compute(self.lmp,id,style,type)
      return ptr

    elif type == LMP_SIZE_COLS:
      if style == LMP_STYLE_GLOBAL  \
         or style == LMP_STYLE_ATOM \
         or style == LMP_STYLE_LOCAL:
        self.lib.lammps_extract_compute.restype = POINTER(c_int)
        with ExceptionCheck(self):
          ptr = self.lib.lammps_extract_compute(self.lmp,id,style,type)
        return ptr[0]

    elif type == LMP_SIZE_VECTOR or type == LMP_SIZE_ROWS:
      if style == LMP_STYLE_GLOBAL  \
         or style == LMP_STYLE_LOCAL:
        self.lib.lammps_extract_compute.restype = POINTER(c_int)
        with ExceptionCheck(self):
          ptr = self.lib.lammps_extract_compute(self.lmp,id,style,type)
        return ptr[0]

    return None
\<close>\<close>

definition extract_compute :: "constants \<Rightarrow> string option \<Rightarrow> int \<Rightarrow> int \<Rightarrow> ('e, pyval) py_method" where
  "extract_compute K id' style type s =
     (if \<not> truthy_text id' then (Inr PyNone, s)
      else
        let call = checked_call (\<lambda>s. Lammps_extract_compute (lmp s) (the id') style type) in
        if type = LMP_TYPE_SCALAR K then
          (if style = LMP_STYLE_GLOBAL K then return_item0 (call s)
           else if style = LMP_STYLE_ATOM K then (Inr PyNone, s)
           else if style = LMP_STYLE_LOCAL K then return_item0 (call s)
           else (Inr PyNone, s))
        else if type = LMP_TYPE_VECTOR K then return_pointer (call s)
        else if type = LMP_TYPE_ARRAY K then return_pointer (call s)
        else if type = LMP_SIZE_COLS K then
          (if style = LMP_STYLE_GLOBAL K \<or> style = LMP_STYLE_ATOM K \<or> style = LMP_STYLE_LOCAL K
           then return_item0 (call s) else (Inr PyNone, s))
        else if type = LMP_SIZE_VECTOR K \<or> type = LMP_SIZE_ROWS K then
          (if style = LMP_STYLE_GLOBAL K \<or> style = LMP_STYLE_LOCAL K
           then return_item0 (call s) else (Inr PyNone, s))
        else (Inr PyNone, s))"

text \<open>
\<^verbatim>\<open>
  def extract_fix(self,id,style,type,nrow=0,ncol=0):
    if id: id = id.encode()
    else: return None

    if style == LMP_STYLE_GLOBAL:
      if type in (LMP_TYPE_SCALAR, LMP_TYPE_VECTOR, LMP_TYPE_ARRAY):
        self.lib.lammps_extract_fix.restype = POINTER(c_double)
        with ExceptionCheck(self):
          ptr = self.lib.lammps_extract_fix(self.lmp,id,style,type,nrow,ncol)
        result = ptr[0]
        self.lib.lammps_free(ptr)
        return result
      elif type in (LMP_SIZE_VECTOR, LMP_SIZE_ROWS, LMP_SIZE_COLS):
        self.lib.lammps_extract_fix.restype = POINTER(c_int)
        with ExceptionCheck(self):
          ptr = self.lib.lammps_extract_fix(self.lmp,id,style,type,nrow,ncol)
        return ptr[0]
      else:
        return None

    elif style == LMP_STYLE_ATOM:
      if type == LMP_TYPE_VECTOR:
        self.lib.lammps_extract_fix.restype = POINTER(c_double)
      elif type == LMP_TYPE_ARRAY:
        self.lib.lammps_extract_fix.restype = POINTER(POINTER(c_double))
      elif type == LMP_SIZE_COLS:
        self.lib.lammps_extract_fix.restype = POINTER(c_int)
      else:
        return None
      with ExceptionCheck(self):
        ptr = self.lib.lammps_extract_fix(self.lmp,id,style,type,nrow,ncol)
      if type == LMP_SIZE_COLS:
        return ptr[0]
      else:
        return ptr

    elif style == LMP_STYLE_LOCAL:
      if type == LMP_TYPE_VECTOR:
        self.lib.lammps_extract_fix.restype = POINTER(c_double)
      elif type == LMP_TYPE_ARRAY:
        self.lib.lammps_extract_fix.restype = POINTER(POINTER(c_double))
      elif type in (LMP_TYPE_SCALAR, LMP_SIZE_VECTOR, LMP_SIZE_ROWS, LMP_SIZE_COLS):
        self.lib.lammps_extract_fix.restype = POINTER(c_int)
      else:
        return None
      with ExceptionCheck(self):
        ptr = self.lib.lammps_extract_fix(self.lmp,id,style,type,nrow,ncol)
      if type in (LMP_TYPE_VECTOR, LMP_TYPE_ARRAY):
        return ptr
      else:
        return ptr[0]
    else:
      return None
\<close>
  \<open>copy_and_free\<close> is \<^verbatim>\<open>result = ptr[0]; self.lib.lammps_free(ptr); return result\<close>.\<close>

definition copy_and_free :: "(py_exc + cptr) \<times> 'e lammps \<Rightarrow> (py_exc + pyval) \<times> 'e lammps" where
  "copy_and_free x =
     (case x of
        (Inl e, s) \<Rightarrow> (Inl e, s)
      | (Inr p, s) \<Rightarrow>
          (case deref p 0 of
             Inl e \<Rightarrow> (Inl e, s)
           | Inr c \<Rightarrow> (case invoke (Lammps_free p) s of (r, s1) \<Rightarrow> (Inr (cell_val c), s1))))"

definition extract_fix ::
  "constants \<Rightarrow> string option \<Rightarrow> int \<Rightarrow> int \<Rightarrow> int \<Rightarrow> int \<Rightarrow> ('e, pyval) py_method" where
  "extract_fix K id' style type nrow ncol s =
     (if \<not> truthy_text id' then (Inr PyNone, s)
      else
        let call = checked_call (\<lambda>s. Lammps_extract_fix (lmp s) (the id') style type nrow ncol) in
        if style = LMP_STYLE_GLOBAL K then
          (if type = LMP_TYPE_SCALAR K \<or> type = LMP_TYPE_VECTOR K \<or> type = LMP_TYPE_ARRAY K
           then copy_and_free (call s)
           else if type = LMP_SIZE_VECTOR K \<or> type = LMP_SIZE_ROWS K \<or> type = LMP_SIZE_COLS K
           then return_item0 (call s)
           else (Inr PyNone, s))
        else if style = LMP_STYLE_ATOM K then
          (if type = LMP_TYPE_VECTOR K \<or> type = LMP_TYPE_ARRAY K \<or> type = LMP_SIZE_COLS K then
             (if type = LMP_SIZE_COLS K then return_item0 (call s) else return_pointer (call s))
           else (Inr PyNone, s))
        else if style = LMP_STYLE_LOCAL K then
          (if type = LMP_TYPE_VECTOR K \<or> type = LMP_TYPE_ARRAY K \<or> type = LMP_TYPE_SCALAR K
              \<or> type = LMP_SIZE_VECTOR K \<or> type = LMP_SIZE_ROWS K \<or> type = LMP_SIZE_COLS K then
             (if type = LMP_TYPE_VECTOR K \<or> type = LMP_TYPE_ARRAY K
              then return_pointer (call s) else return_item0 (call s))
           else (Inr PyNone, s))
        else (Inr PyNone, s))"

text \<open>A text argument after \<^verbatim>\<open>if name: name = name.encode()\<close> with no \<^verbatim>\<open>else\<close>, passed
  as a \<^verbatim>\<open>c_char_p\<close> parameter: \<^verbatim>\<open>None\<close> goes through as \<^verbatim>\<open>NULL\<close>, a non-empty string has
  been encoded, and the empty \<^verbatim>\<open>str\<close> is still a \<^verbatim>\<open>str\<close>, which ctypes refuses with
  \<^verbatim>\<open>ArgumentError\<close>.\<close>

fun marshal_text :: "string option \<Rightarrow> py_exc + string option" where
  "marshal_text None = Inr None"
| "marshal_text (Some t) = (if t = [] then Inl ArgumentError else Inr (Some t))"

fun cell_double :: "cell \<Rightarrow> real" where
  "cell_double (CDouble x) = x"
| "cell_double (CInt i) = of_int i"

text \<open>
\<^verbatim>\<open>
  def extract_variable(self, name, group=None, vartype=LMP_VAR_EQUAL):
    if name: name = name.encode()
    else: return None
    if group: group = group.encode()
    if vartype == LMP_VAR_EQUAL:
      self.lib.lammps_extract_variable.restype = POINTER(c_double)
      with ExceptionCheck(self):
        ptr = self.lib.lammps_extract_variable(self.lmp,name,group)
      if ptr: result = ptr[0]
      else: return None
      self.lib.lammps_free(ptr)
      return result
    elif vartype == LMP_VAR_ATOM:
      nlocal = self.extract_global("nlocal")
      result = (c_double*nlocal)()
      self.lib.lammps_extract_variable.restype = POINTER(c_double)
      with ExceptionCheck(self):
        ptr = self.lib.lammps_extract_variable(self.lmp,name,group)
      if ptr:
        for i in range(nlocal): result[i] = ptr[i]
        self.lib.lammps_free(ptr)
      else: return None
      return result
    return None
\<close>\<close>

definition extract_variable_call :: "string \<Rightarrow> string option \<Rightarrow> ('e, cptr) py_method" where
  "extract_variable_call name group' =
     with_ExceptionCheck
       (\<lambda>s. case marshal_text group' of
               Inl e \<Rightarrow> (Inl e, s)
             | Inr g \<Rightarrow>
                 (case invoke (Lammps_extract_variable (lmp s) name g) s of
                    (r, s1) \<Rightarrow> (Inr (ret_ptr r), s1)))"

definition extract_variable ::
  "constants \<Rightarrow> string option \<Rightarrow> string option \<Rightarrow> int \<Rightarrow> ('e, pyval) py_method" where
  "extract_variable K name group' vartype s =
     (if \<not> truthy_text name then (Inr PyNone, s)
      else if vartype = LMP_VAR_EQUAL K then
        (case extract_variable_call (the name) group' s of
           (Inl e, s1) \<Rightarrow> (Inl e, s1)
         | (Inr p, s1) \<Rightarrow>
             if addr p \<noteq> 0 then
               (case deref p 0 of
                  Inl e \<Rightarrow> (Inl e, s1)
                | Inr c \<Rightarrow>
                    (case invoke (Lammps_free p) s1 of (r, s2) \<Rightarrow> (Inr (cell_val c), s2)))
             else (Inr PyNone, s1))
      else if vartype = LMP_VAR_ATOM K then
        (case extract_global K (Some ''nlocal'') (LAMMPS_AUTODETECT K) s of
           (Inl e, s1) \<Rightarrow> (Inl e, s1)
         | (Inr (PyInt nlocal), s1) \<Rightarrow>
             (case new_array s1 8 nlocal of
                Inl e \<Rightarrow> (Inl e, s1)
              | Inr len \<Rightarrow>
                  (case extract_variable_call (the name) group' s1 of
                     (Inl e, s2) \<Rightarrow> (Inl e, s2)
                   | (Inr p, s2) \<Rightarrow>
                       if addr p \<noteq> 0 then
                         (case read_cells p len of
                            Inl e \<Rightarrow> (Inl e, s2)
                          | Inr cs \<Rightarrow>
                              (case invoke (Lammps_free p) s2 of
                                 (r, s3) \<Rightarrow> (Inr (PyDoubleArray (map cell_double cs)), s3)))
                       else (Inr PyNone, s2)))
         | (Inr _, s1) \<Rightarrow> (Inl TypeError, s1))
      else (Inr PyNone, s))"


subsection \<open>Gather and scatter\<close>

text \<open>A ctypes array filled by the library: it keeps its length whatever the library
  wrote.\<close>

definition fill :: "'a list \<Rightarrow> 'a list \<Rightarrow> 'a list" where
  "fill buf written = take (length buf) written @ drop (length written) buf"

text \<open>
\<^verbatim>\<open>
  def gather_atoms(self,name,type,count):
    if name: name = name.encode()
    natoms = self.get_natoms()
    with ExceptionCheck(self):
      if type == 0:
        data = ((count*natoms)*c_int)()
        self.lib.lammps_gather_atoms(self.lmp,name,type,count,data)
      elif type == 1:
        data = ((count*natoms)*c_double)()
        self.lib.lammps_gather_atoms(self.lmp,name,type,count,data)
      else:
        return None
    return data
\<close>
  \<^verbatim>\<open>gather_atoms_concat\<close>, \<^verbatim>\<open>gather\<close> and \<^verbatim>\<open>gather_concat\<close> have the same body with their
  own entry point; the subset variants take \<^verbatim>\<open>ndata\<close> in place of \<^verbatim>\<open>natoms\<close> and do not
  call \<^verbatim>\<open>get_natoms\<close>.  The \<^verbatim>\<open>with\<close> block is \<open>gather_with\<close>; \<^verbatim>\<open>get_natoms\<close> runs before
  it, so what it raises is not seen by the shim.  The integer arguments are declared
  \<^verbatim>\<open>c_int\<close>.  The values read back from an array of \<^verbatim>\<open>c_int\<close> are 32-bit.\<close>

definition gather_with ::
  "(nat option \<Rightarrow> string option \<Rightarrow> int \<Rightarrow> int \<Rightarrow> cbuf \<Rightarrow> native_call) \<Rightarrow>
   string option \<Rightarrow> int \<Rightarrow> int \<Rightarrow> int \<Rightarrow> ('e, pyval) py_method" where
  "gather_with entry name type count natoms =
     with_ExceptionCheck
       (\<lambda>s. if type = 0 then
               (case new_array s 4 (count * natoms) of
                  Inl e \<Rightarrow> (Inl e, s)
                | Inr len \<Rightarrow>
                    (let data = replicate len (0 :: int) in
                     (case marshal_text name of
                        Inl e \<Rightarrow> (Inl e, s)
                      | Inr nm \<Rightarrow>
                          (case invoke (entry (lmp s) nm (c_int type) (c_int count) (IntBuf data)) s of
                             (r, s1) \<Rightarrow>
                               (Inr (PyIntArray (fill data (map c_int (out_ints r)))), s1)))))
             else if type = 1 then
               (case new_array s 8 (count * natoms) of
                  Inl e \<Rightarrow> (Inl e, s)
                | Inr len \<Rightarrow>
                    (let data = replicate len (0 :: real) in
                     (case marshal_text name of
                        Inl e \<Rightarrow> (Inl e, s)
                      | Inr nm \<Rightarrow>
                          (case invoke (entry (lmp s) nm (c_int type) (c_int count) (DoubleBuf data)) s of
                             (r, s1) \<Rightarrow> (Inr (PyDoubleArray (fill data (out_doubles r))), s1)))))
             else (Inr PyNone, s))"

definition gather_atoms :: "string option \<Rightarrow> int \<Rightarrow> int \<Rightarrow> ('e, pyval) py_method" where
  "gather_atoms name type count s =
     (case get_natoms s of
        (Inl e, s1) \<Rightarrow> (Inl e, s1)
      | (Inr natoms, s1) \<Rightarrow> gather_with Lammps_gather_atoms name type count natoms s1)"

definition gather_atoms_concat :: "string option \<Rightarrow> int \<Rightarrow> int \<Rightarrow> ('e, pyval) py_method" where
  "gather_atoms_concat name type count s =
     (case get_natoms s of
        (Inl e, s1) \<Rightarrow> (Inl e, s1)
      | (Inr natoms, s1) \<Rightarrow> gather_with Lammps_gather_atoms_concat name type count natoms s1)"

definition gather_atoms_subset ::
  "string option \<Rightarrow> int \<Rightarrow> int \<Rightarrow> int \<Rightarrow> int list \<Rightarrow> ('e, pyval) py_method" where
  "gather_atoms_subset name type count ndata ids =
     gather_with (\<lambda>h nm t c b. Lammps_gather_atoms_subset h nm t c (c_int ndata) ids b)
       name type count ndata"

definition gather :: "string option \<Rightarrow> int \<Rightarrow> int \<Rightarrow> ('e, pyval) py_method" where
  "gather name type count s =
     (case get_natoms s of
        (Inl e, s1) \<Rightarrow> (Inl e, s1)
      | (Inr natoms, s1) \<Rightarrow> gather_with Lammps_gather name type count natoms s1)"

definition gather_concat :: "string option \<Rightarrow> int \<Rightarrow> int \<Rightarrow> ('e, pyval) py_method" where
  "gather_concat name type count s =
     (case get_natoms s of
        (Inl e, s1) \<Rightarrow> (Inl e, s1)
      | (Inr natoms, s1) \<Rightarrow> gather_with Lammps_gather_concat name type count natoms s1)"

definition gather_subset ::
  "string option \<Rightarrow> int \<Rightarrow> int \<Rightarrow> int \<Rightarrow> int list \<Rightarrow> ('e, pyval) py_method" where
  "gather_subset name type count ndata ids =
     gather_with (\<lambda>h nm t c b. Lammps_gather_subset h nm t c (c_int ndata) ids b)
       name type count ndata"

text \<open>
\<^verbatim>\<open>
  def scatter_atoms(self,name,type,count,data):
    if name: name = name.encode()
    with ExceptionCheck(self):
      self.lib.lammps_scatter_atoms(self.lmp,name,type,count,data)
\<close>
  and the same for \<^verbatim>\<open>scatter_atoms_subset\<close>, \<^verbatim>\<open>scatter\<close>, \<^verbatim>\<open>scatter_subset\<close>.\<close>

definition scatter_with ::
  "(nat option \<Rightarrow> string option \<Rightarrow> native_call) \<Rightarrow> string option \<Rightarrow> ('e, pyval) py_method" where
  "scatter_with entry name =
     with_ExceptionCheck
       (\<lambda>s. case marshal_text name of
               Inl e \<Rightarrow> (Inl e, s)
             | Inr nm \<Rightarrow>
                 (case invoke (entry (lmp s) nm) s of (r, s1) \<Rightarrow> (Inr PyNone, s1)))"

definition scatter_atoms :: "string option \<Rightarrow> int \<Rightarrow> int \<Rightarrow> cbuf \<Rightarrow> ('e, pyval) py_method" where
  "scatter_atoms name type count data =
     scatter_with (\<lambda>h nm. Lammps_scatter_atoms h nm (c_int type) (c_int count) data) name"

definition scatter_atoms_subset ::
  "string option \<Rightarrow> int \<Rightarrow> int \<Rightarrow> int \<Rightarrow> int list \<Rightarrow> cbuf \<Rightarrow> ('e, pyval) py_method" where
  "scatter_atoms_subset name type count ndata ids data =
     scatter_with
       (\<lambda>h nm. Lammps_scatter_atoms_subset h nm (c_int type) (c_int count) (c_int ndata) ids data)
       name"

definition scatter :: "string option \<Rightarrow> int \<Rightarrow> int \<Rightarrow> cbuf \<Rightarrow> ('e, pyval) py_method" where
  "scatter name type count data =
     scatter_with (\<lambda>h nm. Lammps_scatter h nm (c_int type) (c_int count) data) name"

definition scatter_subset ::
  "string option \<Rightarrow> int \<Rightarrow> int \<Rightarrow> int \<Rightarrow> int list \<Rightarrow> cbuf \<Rightarrow> ('e, pyval) py_method" where
  "scatter_subset name type count ndata ids data =
     scatter_with
       (\<lambda>h nm. Lammps_scatter_subset h nm (c_int type) (c_int count) (c_int ndata) ids data)
       name"

subsection \<open>Creating atoms\<close>

text \<open>
\<^verbatim>\<open>
  def create_atoms(self,n,id,type,x,v=None,image=None,shrinkexceed=False):
    if id:
      id_lmp = (self.c_tagint*n)()
      try:
        id_lmp[:] = id[0:n]
      except:
        return 0
    else:
      id_lmp = None

    type_lmp = (c_int*n)()
    try:
      type_lmp[:] = type[0:n]
    except:
      return 0

    three_n = 3*n
    x_lmp = (c_double*three_n)()
    try:
      x_lmp[:] = x[0:three_n]
    except:
      return 0

    if v:
      v_lmp = (c_double*(three_n))()
      try:
        v_lmp[:] = v[0:three_n]
      except:
        return 0
    else:
      v_lmp = None

    if image:
      img_lmp = (self.c_imageint*n)()
      try:
        img_lmp[:] = image[0:n]
      except:
        return 0
    else:
      img_lmp = None

    if shrinkexceed:
      se_lmp = 1
    else:
      se_lmp = 0

    self.lib.lammps_create_atoms.argtypes = [...]
    with ExceptionCheck(self):
      return self.lib.lammps_create_atoms(self.lmp, n, id_lmp, type_lmp, x_lmp, v_lmp, img_lmp, se_lmp)
\<close>
  \<^verbatim>\<open>arr[:] = xs[0:n]\<close> on an array of length \<open>n\<close> raises unless the slice has exactly
  \<open>n\<close> entries; the \<^verbatim>\<open>except\<close> turns that into \<^verbatim>\<open>return 0\<close>.  The arrays are created
  outside any \<^verbatim>\<open>try\<close>, so what \<open>new_array\<close> raises propagates.  The entries stored in
  an integer array wrap to its width.  An optional list that is \<^verbatim>\<open>None\<close> or empty is
  false and is passed as \<^verbatim>\<open>NULL\<close>.\<close>

definition slice_assign :: "nat \<Rightarrow> 'a list \<Rightarrow> 'a list option" where
  "slice_assign n xs = (if length (take n xs) = n then Some (take n xs) else None)"

fun truthy_list :: "'a list option \<Rightarrow> bool" where
  "truthy_list None = False"
| "truthy_list (Some xs) = (xs \<noteq> [])"

text \<open>\<^verbatim>\<open>if xs: arr = (ctype*n)(); try: arr[:] = xs[0:n] except: return 0\<close> /
  \<^verbatim>\<open>else: arr = None\<close>.  The result is the exception of the array creation, or
  \<open>None\<close> for \<^verbatim>\<open>return 0\<close>, or the argument to pass (\<open>Some None\<close> is \<^verbatim>\<open>NULL\<close>).\<close>

definition optional_array ::
  "'e lammps \<Rightarrow> nat \<Rightarrow> int \<Rightarrow> ('a \<Rightarrow> 'a) \<Rightarrow> 'a list option \<Rightarrow> py_exc + 'a list option option" where
  "optional_array s w n store xs =
     (if truthy_list xs then
        (case new_array s w n of
           Inl e \<Rightarrow> Inl e
         | Inr len \<Rightarrow>
             (case slice_assign len (the xs) of
                None \<Rightarrow> Inr None
              | Some a \<Rightarrow> Inr (Some (Some (map store a)))))
      else Inr (Some None))"

definition required_array ::
  "'e lammps \<Rightarrow> nat \<Rightarrow> int \<Rightarrow> ('a \<Rightarrow> 'a) \<Rightarrow> 'a list \<Rightarrow> py_exc + 'a list option" where
  "required_array s w n store xs =
     (case new_array s w n of
        Inl e \<Rightarrow> Inl e
      | Inr len \<Rightarrow>
          (case slice_assign len xs of
             None \<Rightarrow> Inr None
           | Some a \<Rightarrow> Inr (Some (map store a))))"

definition create_atoms ::
  "int \<Rightarrow> int list option \<Rightarrow> int list \<Rightarrow> real list \<Rightarrow> real list option \<Rightarrow>
   int list option \<Rightarrow> bool \<Rightarrow> ('e, int) py_method" where
  "create_atoms n id' type x v image' shrinkexceed s =
     (case optional_array s (c_tagint_bits s div 8) n (wrap_signed (c_tagint_bits s)) id' of
        Inl e \<Rightarrow> (Inl e, s)
      | Inr None \<Rightarrow> (Inr 0, s)
      | Inr (Some id_lmp) \<Rightarrow>
     (case required_array s 4 n c_int type of
        Inl e \<Rightarrow> (Inl e, s)
      | Inr None \<Rightarrow> (Inr 0, s)
      | Inr (Some type_lmp) \<Rightarrow>
     (case required_array s 8 (3 * n) (\<lambda>d. d) x of
        Inl e \<Rightarrow> (Inl e, s)
      | Inr None \<Rightarrow> (Inr 0, s)
      | Inr (Some x_lmp) \<Rightarrow>
     (case optional_array s 8 (3 * n) (\<lambda>d. d) v of
        Inl e \<Rightarrow> (Inl e, s)
      | Inr None \<Rightarrow> (Inr 0, s)
      | Inr (Some v_lmp) \<Rightarrow>
     (case optional_array s (c_imageint_bits s div 8) n (wrap_signed (c_imageint_bits s)) image' of
        Inl e \<Rightarrow> (Inl e, s)
      | Inr None \<Rightarrow> (Inr 0, s)
      | Inr (Some img_lmp) \<Rightarrow>
          with_ExceptionCheck
            (\<lambda>s. case invoke (Lammps_create_atoms (lmp s) (c_int n) id_lmp type_lmp x_lmp v_lmp
                               img_lmp (if shrinkexceed then 1 else 0)) s of
                    (r, s1) \<Rightarrow> (Inr (ret_int r), s1)) s)))))"

subsection \<open>Introspection: count, then enumerate\<close>









text \<open>
\<^verbatim>\<open>
  def available_ids(self, category):
    categories = ['compute','dump','fix','group','molecule','region','variable']
    available_ids = []
    if category in categories:
      num = self.lib.lammps_id_count(self.lmp, category.encode())
      sb = create_string_buffer(100)
      for idx in range(num):
        self.lib.lammps_id_name(self.lmp, category.encode(), idx, sb, 100)
        available_ids.append(sb.value.decode())
    return available_ids
\<close>\<close>

definition categories :: "string list" where
  "categories = [''compute'', ''dump'', ''fix'', ''group'', ''molecule'', ''region'', ''variable'']"

fun id_name_loop :: "string \<Rightarrow> nat list \<Rightarrow> string list \<Rightarrow> ('e, string list) py_method" where
  "id_name_loop category [] acc s = (Inr acc, s)"
| "id_name_loop category (idx # rest) acc s =
     (case invoke (Lammps_id_name (lmp s) category (int idx) 100) s of
        (r, s1) \<Rightarrow>
          (case decode (string_buffer_value 100 (out_text r)) of
             Inl e \<Rightarrow> (Inl e, s1)
           | Inr nm \<Rightarrow> id_name_loop category rest (acc @ [nm]) s1))"

definition available_ids :: "string \<Rightarrow> ('e, string list) py_method" where
  "available_ids category s =
     (if category \<in> set categories then
        (case invoke (Lammps_id_count (lmp s) category) s of
           (r, s1) \<Rightarrow> id_name_loop category [0..<nat (ret_int r)] [] s1)
      else (Inr [], s))"



subsection \<open>A concrete library for evaluating the methods\<close>

text \<open>The constants as the LAMMPS distribution defines them in
  \<^verbatim>\<open>python/lammps/constants.py\<close>, used only to run the methods on concrete inputs.\<close>

definition lammps_constants :: constants where
  "lammps_constants =
     \<lparr>LAMMPS_AUTODETECT = None, LAMMPS_INT = 0, LAMMPS_INT_2D = 1, LAMMPS_DOUBLE = 2,
      LAMMPS_DOUBLE_2D = 3, LAMMPS_INT64 = 4, LAMMPS_INT64_2D = 5, LAMMPS_STRING = 6,
      LMP_STYLE_GLOBAL = 0, LMP_STYLE_ATOM = 1, LMP_STYLE_LOCAL = 2,
      LMP_TYPE_SCALAR = 0, LMP_TYPE_VECTOR = 1, LMP_TYPE_ARRAY = 2,
      LMP_SIZE_VECTOR = 3, LMP_SIZE_ROWS = 4, LMP_SIZE_COLS = 5,
      LMP_VAR_EQUAL = 0, LMP_VAR_ATOM = 1\<rparr>"

definition stub_ret :: native_ret where
  "stub_ret =
     \<lparr>ret_int = 0, ret_double = Finite 0, ret_ptr = CPtr 0 [] [], out_text = [], out_text2 = [],
      out_ints = [], out_doubles = []\<rparr>"

text \<open>The message of a failed \<^verbatim>\<open>read_data\<close>: 98 ASCII bytes, then the two bytes of an
  accented letter of the file name, then the rest.\<close>

definition read_data_message :: string where
  "read_data_message =
     ''ERROR on proc 0: Cannot open data file /home/lab/simulations/nanotube-2021/run-07/stage-002/data/r''
     @ [CHR 0xC3, CHR 0xA9] @
     ''sultats.data: No such file or directory (src/read_data.cpp:330)''"

text \<open>A small engine whose state is the pending error (0: none, 1: an error, 2 and 3:
  an abort on one process).  It knows the global \<^verbatim>\<open>nlocal\<close>, the per-atom property
  \<^verbatim>\<open>x\<close>, one fix \<^verbatim>\<open>f1\<close>, one variable \<^verbatim>\<open>v1\<close>, no compute, four atoms; the commands
  \<^verbatim>\<open>abort\<close>, \<^verbatim>\<open>bogus\<close> and \<^verbatim>\<open>read_data\<close> fail.  Like the engine, it copies at most
  \<open>n - 1\<close> bytes of the message and a NUL into a buffer of \<open>n\<close> bytes.  It reports the
  same name for every group ID.\<close>

fun stub_lib :: "nat \<Rightarrow> native_call \<Rightarrow> native_ret \<times> nat" where
  "stub_lib e Lammps_config_has_exceptions = (stub_ret\<lparr>ret_int := 1\<rparr>, e)"
| "stub_lib e (Lammps_has_error h) = (stub_ret\<lparr>ret_int := (if e = 0 then 0 else 1)\<rparr>, e)"
| "stub_lib e (Lammps_get_last_error_message h n) =
     (stub_ret\<lparr>ret_int := (if e = 3 then 2 else int e),
               out_text := take (n - 1) (if e = 3 then read_data_message
                                         else ''  ERROR: Lost atoms '') @ [CHR 0x00]\<rparr>, 0)"
| "stub_lib e (Lammps_command h c) =
     (stub_ret, if c = ''abort'' then 2 else if c = ''bogus'' then 1
                else if c = ''read_data'' then 3 else e)"
| "stub_lib e (Lammps_get_natoms h) = (stub_ret\<lparr>ret_double := Finite 4\<rparr>, e)"
| "stub_lib e (Lammps_extract_global_datatype h nm) =
     (stub_ret\<lparr>ret_int := (if nm = ''nlocal'' then 0 else - 1)\<rparr>, e)"
| "stub_lib e (Lammps_extract_global h nm) =
     (if nm = ''nlocal'' then stub_ret\<lparr>ret_int := 12288, ret_ptr := CPtr 12288 [CInt 4] []\<rparr>
      else stub_ret, e)"
| "stub_lib e (Lammps_extract_atom_datatype h nm) =
     (stub_ret\<lparr>ret_int := (if nm = ''x'' then 3 else - 1)\<rparr>, e)"
| "stub_lib e (Lammps_extract_atom h nm) =
     (if nm = ''x'' then stub_ret\<lparr>ret_ptr := CPtr 16384 [] []\<rparr> else stub_ret, e)"
| "stub_lib e (Lammps_extract_fix h i st ty nr nc) =
     (if i = ''f1'' then stub_ret\<lparr>ret_ptr := CPtr 4096 [CDouble 7] []\<rparr> else stub_ret, e)"
| "stub_lib e (Lammps_extract_variable h nm g) =
     (if nm = ''v1'' then stub_ret\<lparr>ret_ptr := CPtr 8192 [CDouble 3] []\<rparr> else stub_ret, e)"
| "stub_lib e (Lammps_gather h nm ty c b) =
     (stub_ret\<lparr>out_ints := [1, 2, 3, 4], out_doubles := [1, 2, 3, 4, 5, 6, 7, 8, 9, 10, 11, 12]\<rparr>, e)"
| "stub_lib e (Lammps_create_atoms h n i t x v im se) = (stub_ret\<lparr>ret_int := n\<rparr>, e)"
| "stub_lib e Lammps_config_package_count = (stub_ret\<lparr>ret_int := 2\<rparr>, e)"
| "stub_lib e (Lammps_config_package_name idx n) =
     (stub_ret\<lparr>out_text := (if idx = 0 then ''KSPACE'' else ''MOLECULE'')\<rparr>, e)"
| "stub_lib e (Lammps_style_count h c) = (stub_ret\<lparr>ret_int := 2\<rparr>, e)"
| "stub_lib e (Lammps_style_name h c idx n) =
     (stub_ret\<lparr>out_text := (if idx = 0 then ''lj/cut'' else ''morse'')\<rparr>, e)"
| "stub_lib e (Lammps_id_count h c) = (stub_ret\<lparr>ret_int := 2\<rparr>, e)"
| "stub_lib e (Lammps_id_name h c idx n) =
     (stub_ret\<lparr>out_text := (if c = ''group'' then ''all''
                              else if idx = 0 then ''c0'' else ''c1'')\<rparr>, e)"
| "stub_lib e (Lammps_plugin_count h) = (stub_ret\<lparr>ret_int := 2\<rparr>, e)"
| "stub_lib e (Lammps_plugin_name idx n) =
     (stub_ret\<lparr>out_text := ''pair'',
               out_text2 := (if idx = 0 then ''morse2'' else ''zero2'')\<rparr>, e)"
| "stub_lib e c = (stub_ret, e)"

text \<open>A wrapper on a 64-bit host with 32-bit atom IDs and image flags.\<close>

definition stub_lammps :: "nat lammps" where
  "stub_lammps =
     \<lparr>lib = stub_lib, engine = 0, calls = [], lmp = Some 1000, opened = 1,
      extract_global_restype = R_c_int, cached_installed_packages = None,
      cached_available_styles = None, c_tagint_bits = 32, c_imageint_bits = 32,
      ssize_max = 9223372036854775807, host_memory = 1073741824\<rparr>"

subsection \<open>Sequences of lifecycle calls\<close>

text \<open>To speak of "at most once per handle": any sequence of the three methods that
  can destroy the engine, and the number of \<^verbatim>\<open>lammps_close\<close> calls the library saw.\<close>

datatype lifecycle = Close | Del | Finalize

fun lifecycle_step :: "'e lammps \<Rightarrow> lifecycle \<Rightarrow> 'e lammps" where
  "lifecycle_step s Close = close s"
| "lifecycle_step s Del = del s"
| "lifecycle_step s Finalize = finalize s"

fun is_Lammps_close :: "native_call \<Rightarrow> bool" where
  "is_Lammps_close (Lammps_close h) = True"
| "is_Lammps_close c = False"

definition destroy_calls :: "'e lammps \<Rightarrow> nat" where
  "destroy_calls s = length (filter is_Lammps_close (calls s))"


subsection \<open>The name queries among the recorded calls\<close>







subsection \<open>When the shim raises\<close>

text \<open>Leaving a \<^verbatim>\<open>with ExceptionCheck\<close> block in state \<open>s\<close> raises; and a library that
  flags no error in any state (one built without exception support, or an engine that
  never fails).\<close>

definition shim_raises :: "'e lammps \<Rightarrow> bool" where
  "shim_raises s = (fst (ExceptionCheck_exit s) \<noteq> None)"





subsection \<open>The next native call\<close>

text \<open>An operation started in state \<open>s\<close> calls the native entry point \<open>c\<close> before any
  other: \<open>c\<close> is the first call recorded after those recorded in \<open>s\<close>.\<close>

definition calls_first :: "('e lammps \<Rightarrow> 'a \<times> 'e lammps) \<Rightarrow> 'e lammps \<Rightarrow> native_call \<Rightarrow> bool" where
  "calls_first op s c = (take (Suc (length (calls s))) (calls (snd (op s))) = calls s @ [c])"

text \<open>The calls recorded in \<open>s'\<close> start with those recorded in \<open>s\<close>.\<close>

definition calls_extend :: "'e lammps \<Rightarrow> 'e lammps \<Rightarrow> bool" where
  "calls_extend s s' = (take (length (calls s)) (calls s') = calls s)"

section \<open>Properties\<close>

subsection \<open>Basic facts about native calls and the shim\<close>

lemma invoke_fields:
  "lib (snd (invoke c s)) = lib s"
  "lmp (snd (invoke c s)) = lmp s"
  "opened (snd (invoke c s)) = opened s"
  "calls (snd (invoke c s)) = calls s @ [c]"
  by (simp_all add: invoke_def split: prod.splits)


lemma string_buffer_value_length: "length (string_buffer_value n w) \<le> n"
proof -
  have "length (takeWhile P xs) \<le> length xs" for P and xs :: "'a list"
    by (induction xs) auto
  from this[of "\<lambda>c. c \<noteq> CHR 0x00" "take n w"] show ?thesis
    by (simp add: string_buffer_value_def)
qed

text \<open>What \<^verbatim>\<open>__exit__\<close> raises, in terms of the library's answers to the three queries it
  makes, in the order it makes them.\<close>

lemma ExceptionCheck_exit_result:
  "fst (ExceptionCheck_exit s) =
     (let r1 = lib s (engine s) Lammps_config_has_exceptions;
          r2 = lib s (snd r1) (Lammps_has_error (lmp s));
          r3 = lib s (snd r2) (Lammps_get_last_error_message (lmp s) 100)
      in if ret_int (fst r1) \<noteq> 0 \<and> ret_int (fst r2) \<noteq> 0
         then Some (case decode_strip (string_buffer_value 100 (out_text (fst r3))) of
                      Inl e \<Rightarrow> e
                    | Inr msg \<Rightarrow>
                        if ret_int (fst r3) = 2 then MPIAbortException msg else Exception msg)
         else None)"
  by (auto simp add: ExceptionCheck_exit_def has_exceptions_def lammps_exception_def invoke_def
      Let_def split: prod.splits sum.splits)

lemma ExceptionCheck_exit_calls:
  "calls (snd (ExceptionCheck_exit s)) =
     (let r1 = lib s (engine s) Lammps_config_has_exceptions;
          r2 = lib s (snd r1) (Lammps_has_error (lmp s))
      in calls s @ Lammps_config_has_exceptions #
           (if ret_int (fst r1) \<noteq> 0
            then Lammps_has_error (lmp s) #
                 (if ret_int (fst r2) \<noteq> 0 then [Lammps_get_last_error_message (lmp s) 100] else [])
            else []))"
  by (auto simp add: ExceptionCheck_exit_def has_exceptions_def lammps_exception_def invoke_def
      Let_def split: prod.splits sum.splits)


lemma with_ExceptionCheck_result:
  "fst (with_ExceptionCheck body s) =
     (case fst (ExceptionCheck_exit (snd (body s))) of
        Some e \<Rightarrow> Inl e | None \<Rightarrow> fst (body s))"
  "snd (with_ExceptionCheck body s) = snd (ExceptionCheck_exit (snd (body s)))"
  by (simp_all add: with_ExceptionCheck_def split: prod.splits option.splits)

lemma with_ExceptionCheck_calls:
  "\<exists>cs. calls (snd (with_ExceptionCheck body s)) =
          calls (snd (body s)) @ Lammps_config_has_exceptions # cs"
  by (simp add: with_ExceptionCheck_result ExceptionCheck_exit_calls Let_def)

lemma shim_raises_iff:
  "shim_raises s =
     (ret_int (fst (lib s (engine s) Lammps_config_has_exceptions)) \<noteq> 0
      \<and> ret_int (fst (lib s (snd (lib s (engine s) Lammps_config_has_exceptions))
                         (Lammps_has_error (lmp s)))) \<noteq> 0)"
  by (simp add: shim_raises_def ExceptionCheck_exit_result Let_def)


lemma with_ExceptionCheck_quiet:
  "\<not> shim_raises (snd (body s)) \<Longrightarrow> fst (with_ExceptionCheck body s) = fst (body s)"
  by (simp add: shim_raises_def with_ExceptionCheck_result)

lemma with_ExceptionCheck_Inr:
  "fst (with_ExceptionCheck body s) = Inr v \<Longrightarrow> fst (body s) = Inr v"
  by (simp add: with_ExceptionCheck_result split: option.splits)

lemma new_array_Inr: "new_array s w n = Inr len \<Longrightarrow> 0 \<le> n \<and> len = nat n"
  by (simp add: new_array_def split: if_splits)

subsection \<open>C1: the error-translation shim\<close>

text \<open>For every wrapped block: the shim raises exactly when the library reports
  exception support and the error flag is set; the bytes it fetches come from a
  buffer of 100 bytes; and when these bytes decode, the block ends in
  \<^verbatim>\<open>MPIAbortException\<close> with the stripped message if the error kind is 2 and in
  \<^verbatim>\<open>Exception\<close> with that message otherwise.  When the shim does not raise, the body's
  own result or exception stands.\<close>

lemma with_ExceptionCheck_translates:
  "let s1 = snd (body s);
       r1 = lib s1 (engine s1) Lammps_config_has_exceptions;
       r2 = lib s1 (snd r1) (Lammps_has_error (lmp s1));
       r3 = lib s1 (snd r2) (Lammps_get_last_error_message (lmp s1) 100);
       fetched = string_buffer_value 100 (out_text (fst r3));
       flagged = (ret_int (fst r1) \<noteq> 0 \<and> ret_int (fst r2) \<noteq> 0)
   in shim_raises s1 = flagged
    \<and> length fetched \<le> 100
    \<and> fst (with_ExceptionCheck body s) =
        (if flagged
         then (case decode_strip fetched of
                 Inl e \<Rightarrow> Inl e
               | Inr msg \<Rightarrow>
                   Inl (if ret_int (fst r3) = 2 then MPIAbortException msg else Exception msg))
         else fst (body s))"
  unfolding Let_def
  by (simp add: with_ExceptionCheck_result ExceptionCheck_exit_result shim_raises_iff
      string_buffer_value_length Let_def split: sum.splits)

text \<open>
  Claim C1 says that a raised error is \<^verbatim>\<open>MPIAbortException\<close> exactly when the error
  kind is 2.  The code decodes the fetched bytes with \<^verbatim>\<open>sb.value.decode()\<close> before it
  looks at the kind, and the engine cuts the message to the 99 bytes that fit the
  buffer: when the cut falls inside a multi-byte character the decoding raises
  \<^verbatim>\<open>UnicodeDecodeError\<close>, and the abort is not reported as an abort.  On the concrete
  library, \<^verbatim>\<open>read_data\<close> fails with kind 2 and a message whose 99th and 100th bytes are
  one accented letter; \<^verbatim>\<open>abort\<close> fails with kind 2 and a short message.
\<close>

theorem abort_with_cut_message:
  "snd (stub_lib 0 (Lammps_command (Some 1000) ''read_data'')) = 3
   \<and> ret_int (fst (stub_lib 3 (Lammps_get_last_error_message (Some 1000) 100))) = 2
   \<and> fst (command (Some ''read_data'') stub_lammps) = Inl UnicodeDecodeError
   \<and> fst (command (Some ''abort'') stub_lammps)
        = Inl (MPIAbortException ''ERROR: Lost atoms'')"
  by (simp add: command_def with_ExceptionCheck_def ExceptionCheck_exit_def has_exceptions_def
      lammps_exception_def decode_strip_def code_points_def is_cont_def utf8_encode_def
      strip_code_points_def py_isspace_def invoke_def stub_lammps_def stub_ret_def
      read_data_message_def string_buffer_value_def char_of_def bit_Suc_0_iff Let_def)

subsection \<open>C3: close is idempotent\<close>

lemma close_fields:
  "lmp (close s) = None"
  "opened (close s) = 0"
  "calls (close s) = calls s @ (if opened s \<noteq> 0 then [Lammps_close (lmp s)] else [])"
  by (simp_all add: close_def invoke_def Let_def split: prod.splits)

lemma close_closed: "opened s = 0 \<Longrightarrow> lmp s = None \<Longrightarrow> close s = s"
  by (simp add: close_def)

lemma lifecycle_step_budget:
  "destroy_calls (lifecycle_step s x) + (if opened (lifecycle_step s x) \<noteq> 0 then 1 else 0)
     \<le> destroy_calls s + (if opened s \<noteq> 0 then 1 else 0)"
  by (cases x)
     (simp_all add: destroy_calls_def close_def del_def finalize_def invoke_def Let_def
        split: prod.splits)

lemma lifecycle_budget:
  "destroy_calls (foldl lifecycle_step s xs) + (if opened (foldl lifecycle_step s xs) \<noteq> 0 then 1 else 0)
     \<le> destroy_calls s + (if opened s \<noteq> 0 then 1 else 0)"
proof (induction xs arbitrary: s)
  case Nil
  show ?case by simp
next
  case (Cons x xs)
  have "destroy_calls (foldl lifecycle_step (lifecycle_step s x) xs)
          + (if opened (foldl lifecycle_step (lifecycle_step s x) xs) \<noteq> 0 then 1 else 0)
        \<le> destroy_calls (lifecycle_step s x) + (if opened (lifecycle_step s x) \<noteq> 0 then 1 else 0)"
    by (rule Cons.IH)
  also have "\<dots> \<le> destroy_calls s + (if opened s \<noteq> 0 then 1 else 0)"
    by (rule lifecycle_step_budget)
  finally show ?case by simp
qed

text \<open>
  Claim C3.  \<^verbatim>\<open>close\<close> is idempotent: a second \<^verbatim>\<open>close\<close> leaves the wrapper and the list
  of native calls exactly as the first one left them.  One \<^verbatim>\<open>close\<close> calls
  \<^verbatim>\<open>lammps_close\<close> once when \<^verbatim>\<open>opened\<close> is set and not at all otherwise (a wrapper that
  never opened an engine, or one already closed).  Over any sequence of \<^verbatim>\<open>close\<close>,
  \<^verbatim>\<open>__del__\<close> and \<^verbatim>\<open>finalize\<close> calls the library sees at most one more \<^verbatim>\<open>lammps_close\<close>
  for an opened wrapper, and none for one that is not opened.
\<close>

theorem close_idempotent:
  "close (close s) = close s
   \<and> calls (close s) = calls s @ (if opened s \<noteq> 0 then [Lammps_close (lmp s)] else [])
   \<and> calls (close (close s)) = calls (close s)
   \<and> destroy_calls (foldl lifecycle_step s xs)
        \<le> destroy_calls s + (if opened s \<noteq> 0 then 1 else 0)"
proof -
  have a: "close (close s) = close s"
    by (rule close_closed) (simp_all add: close_fields)
  have b: "destroy_calls (foldl lifecycle_step s xs) \<le> destroy_calls s + (if opened s \<noteq> 0 then 1 else 0)"
    using lifecycle_budget[of s xs] by (simp split: if_splits)
  show ?thesis using a b by (simp add: close_fields)
qed

theorem close_idempotent_witness:
  "calls (close (close stub_lammps)) = [Lammps_close (Some 1000)]
   \<and> destroy_calls (foldl lifecycle_step stub_lammps [Close, Del, Finalize, Close]) \<le> 1"
  using close_idempotent[of stub_lammps "[Close, Del, Finalize, Close]"]
  by (simp add: stub_lammps_def destroy_calls_def)

subsection \<open>C10: unknown ID categories\<close>

text \<open>
  Claim C10.  For a category that is not one of \<^verbatim>\<open>compute\<close>, \<^verbatim>\<open>dump\<close>, \<^verbatim>\<open>fix\<close>,
  \<^verbatim>\<open>group\<close>, \<^verbatim>\<open>molecule\<close>, \<^verbatim>\<open>region\<close>, \<^verbatim>\<open>variable\<close>, \<^verbatim>\<open>available_ids\<close> returns the empty
  list and leaves the wrapper untouched: no native call is recorded, neither the count
  query nor a name query.
\<close>

theorem available_ids_unknown_category:
  "category \<notin> set categories \<Longrightarrow>
     available_ids category s = (Inr [], s) \<and> calls (snd (available_ids category s)) = calls s"
  by (simp add: available_ids_def)

theorem available_ids_unknown_category_witness:
  "''pair'' \<notin> set categories \<and> available_ids ''pair'' stub_lammps = (Inr [], stub_lammps)"
  using available_ids_unknown_category[of "''pair''" stub_lammps]
  by (simp add: categories_def)

subsection \<open>C4: extraction of an unknown name\<close>

text \<open>
  Claim C4 says that every extraction method returns \<^verbatim>\<open>None\<close>, without raising, for a
  name the library does not know (it answers with a \<^verbatim>\<open>NULL\<close> pointer, and with no
  datatype).  \<^verbatim>\<open>extract_global\<close>, \<^verbatim>\<open>extract_atom\<close> and \<^verbatim>\<open>extract_variable\<close> test the
  pointer and do so.  \<^verbatim>\<open>extract_compute\<close> and \<^verbatim>\<open>extract_fix\<close> do not test it, although
  their docstrings promise \<^verbatim>\<open>None\<close> for an unrecognised id: for the scalar and size
  requests \<^verbatim>\<open>ptr[0]\<close> raises \<^verbatim>\<open>ValueError\<close> (NULL pointer access), and for vector and
  array requests the \<^verbatim>\<open>NULL\<close> pointer object itself is returned.  The code evaluated
  on the concrete library, which knows no compute at all:
\<close>

theorem extract_compute_unknown_id:
  "fst (extract_compute lammps_constants (Some ''nope'') 0 0 stub_lammps) = Inl ValueError
   \<and> fst (extract_compute lammps_constants (Some ''nope'') 0 3 stub_lammps) = Inl ValueError
   \<and> fst (extract_compute lammps_constants (Some ''nope'') 0 1 stub_lammps)
        = Inr (PyPointer (CPtr 0 [] []))
   \<and> fst (extract_fix lammps_constants (Some ''nope'') 1 5 0 0 stub_lammps) = Inl ValueError
   \<and> fst (extract_global lammps_constants (Some ''nope'') None stub_lammps) = Inr PyNone
   \<and> fst (extract_atom lammps_constants (Some ''nope'') None stub_lammps) = Inr PyNone
   \<and> fst (extract_variable lammps_constants (Some ''nope'') None 0 stub_lammps) = Inr PyNone"
  by (simp add: extract_compute_def extract_fix_def extract_global_def extract_global_with_def
      extract_global_fetch_def extract_global_datatype_def extract_atom_def
      extract_atom_datatype_def extract_variable_def extract_variable_call_def
      checked_call_def return_item0_def return_pointer_def deref_def vec_dict_def
      with_ExceptionCheck_def ExceptionCheck_exit_def has_exceptions_def invoke_def
      lammps_constants_def stub_lammps_def stub_ret_def Let_def)

subsection \<open>C7: buffers owned by the caller\<close>

text \<open>
  Claim C7 says that a caller-owned result is copied and then released with exactly
  one \<^verbatim>\<open>lammps_free\<close>, and that a \<^verbatim>\<open>NULL\<close> result gives \<^verbatim>\<open>None\<close> with no free.
  \<^verbatim>\<open>extract_variable\<close> does both.  \<^verbatim>\<open>extract_fix\<close> with global style copies and frees
  once when the pointer is valid, but on a \<^verbatim>\<open>NULL\<close> pointer its unguarded \<^verbatim>\<open>ptr[0]\<close>
  raises \<^verbatim>\<open>ValueError\<close> instead of returning \<^verbatim>\<open>None\<close> (no free is made).  The code
  evaluated on the concrete library, which knows the fix \<^verbatim>\<open>f1\<close> and the variable
  \<^verbatim>\<open>v1\<close> only:
\<close>

theorem extract_fix_null_pointer:
  "extract_fix lammps_constants (Some ''nofix'') 0 0 0 0 stub_lammps =
     (Inl ValueError,
      stub_lammps\<lparr>calls := [Lammps_extract_fix (Some 1000) ''nofix'' 0 0 0 0,
                            Lammps_config_has_exceptions, Lammps_has_error (Some 1000)]\<rparr>)
   \<and> extract_fix lammps_constants (Some ''f1'') 0 0 0 0 stub_lammps =
     (Inr (PyFloat 7),
      stub_lammps\<lparr>calls := [Lammps_extract_fix (Some 1000) ''f1'' 0 0 0 0,
                            Lammps_config_has_exceptions, Lammps_has_error (Some 1000),
                            Lammps_free (CPtr 4096 [CDouble 7] [])]\<rparr>)
   \<and> extract_variable lammps_constants (Some ''novar'') None 0 stub_lammps =
     (Inr PyNone,
      stub_lammps\<lparr>calls := [Lammps_extract_variable (Some 1000) ''novar'' None,
                            Lammps_config_has_exceptions, Lammps_has_error (Some 1000)]\<rparr>)
   \<and> extract_variable lammps_constants (Some ''v1'') None 0 stub_lammps =
     (Inr (PyFloat 3),
      stub_lammps\<lparr>calls := [Lammps_extract_variable (Some 1000) ''v1'' None,
                            Lammps_config_has_exceptions, Lammps_has_error (Some 1000),
                            Lammps_free (CPtr 8192 [CDouble 3] [])]\<rparr>)"
  by (simp add: extract_fix_def extract_variable_def extract_variable_call_def
      checked_call_def copy_and_free_def deref_def
      with_ExceptionCheck_def ExceptionCheck_exit_def has_exceptions_def invoke_def
      lammps_constants_def stub_lammps_def stub_ret_def Let_def)

text \<open>The same for any library and any constants: what \<open>copy_and_free\<close> and the
  equal-style branch of \<^verbatim>\<open>extract_variable\<close> do with a pointer.\<close>

lemma copy_and_free_null:
  "addr p = 0 \<Longrightarrow> copy_and_free (Inr p, s) = (Inl ValueError, s)"
  by (simp add: copy_and_free_def deref_def)

lemma copy_and_free_valid:
  "addr p \<noteq> 0 \<Longrightarrow> cells p = c # cs \<Longrightarrow>
     fst (copy_and_free (Inr p, s)) = Inr (cell_val c)
     \<and> calls (snd (copy_and_free (Inr p, s))) = calls s @ [Lammps_free p]"
  by (simp add: copy_and_free_def deref_def invoke_def split: prod.splits)

subsection \<open>C2: null or empty text arguments\<close>




subsection \<open>C5: creating atoms from short lists\<close>

text \<open>
  Claim C5 says that a list with fewer entries than required makes \<^verbatim>\<open>create_atoms\<close>
  return 0 without calling \<^verbatim>\<open>lammps_create_atoms\<close>, and the docstring says the same
  (the lists "may contain more than N entries, but not fewer", \<^verbatim>\<open>id\<close> is a list "with
  at least n elements or None", the result is "0 if insufficient or invalid data").
  The length test sits inside \<^verbatim>\<open>if id:\<close>, \<^verbatim>\<open>if v:\<close>, \<^verbatim>\<open>if image:\<close>, and an empty list is
  false: a list of ids, velocities or image flags with no entries at all is not
  tested, the argument is passed as \<^verbatim>\<open>NULL\<close> and the atoms are created.  A list that
  is too short but not empty is detected.  On the concrete library:
\<close>

theorem create_atoms_empty_list:
  "create_atoms 1 (Some []) [1] [0, 0, 0] None None False stub_lammps =
     (Inr 1,
      stub_lammps\<lparr>calls := [Lammps_create_atoms (Some 1000) 1 None [1] [0, 0, 0] None None 0,
                            Lammps_config_has_exceptions, Lammps_has_error (Some 1000)]\<rparr>)
   \<and> create_atoms 1 None [1] [0, 0, 0] (Some []) (Some []) False stub_lammps =
     (Inr 1,
      stub_lammps\<lparr>calls := [Lammps_create_atoms (Some 1000) 1 None [1] [0, 0, 0] None None 0,
                            Lammps_config_has_exceptions, Lammps_has_error (Some 1000)]\<rparr>)
   \<and> create_atoms 2 (Some [7]) [1, 1] [0, 0, 0, 0, 0, 0] None None False stub_lammps =
     (Inr 0, stub_lammps)"
  by (simp add: create_atoms_def optional_array_def required_array_def slice_assign_def
      new_array_def c_int_def wrap_signed_def with_ExceptionCheck_def
      ExceptionCheck_exit_def has_exceptions_def invoke_def stub_lammps_def stub_ret_def)

text \<open>For any library: when the arrays can be created, a list that is too short and,
  if optional, not empty, gives 0 and leaves the wrapper untouched.\<close>

lemma slice_assign_short: "length xs < n \<Longrightarrow> slice_assign n xs = None"
  by (simp add: slice_assign_def)

lemma create_atoms_short_list:
  assumes fit: "new_array s (c_tagint_bits s div 8) n = Inr len"
      "new_array s 4 n = Inr len"
      "new_array s 8 (3 * n) = Inr len3"
      "new_array s (c_imageint_bits s div 8) n = Inr len"
    and short: "(truthy_list id' \<and> int (length (the id')) < n)
         \<or> int (length type) < n
         \<or> int (length x) < 3 * n
         \<or> (truthy_list v \<and> int (length (the v)) < 3 * n)
         \<or> (truthy_list image' \<and> int (length (the image')) < n)"
  shows "create_atoms n id' type x v image' shrinkexceed s = (Inr 0, s)"
proof -
  have l: "len = nat n" "len3 = nat (3 * n)" "0 \<le> n"
    using new_array_Inr[OF fit(2)] new_array_Inr[OF fit(3)] by simp_all
  from short consider
      (a) "truthy_list id'" "length (the id') < len"
    | (b) "length type < len"
    | (c) "length x < len3"
    | (d) "truthy_list v" "length (the v) < len3"
    | (e) "truthy_list image'" "length (the image') < len"
    using l by (elim disjE conjE) (simp_all add: zless_nat_eq_int_zless)
  then show ?thesis
  proof cases
    case a
    then show ?thesis
      by (simp add: create_atoms_def optional_array_def fit slice_assign_short)
  next
    case b
    then show ?thesis
      by (simp add: create_atoms_def optional_array_def required_array_def fit
          slice_assign_short split: option.splits)
  next
    case c
    then show ?thesis
      by (simp add: create_atoms_def optional_array_def required_array_def fit
          slice_assign_short split: option.splits)
  next
    case d
    then show ?thesis
      by (simp add: create_atoms_def optional_array_def required_array_def fit
          slice_assign_short split: option.splits)
  next
    case e
    then show ?thesis
      by (simp add: create_atoms_def optional_array_def required_array_def fit
          slice_assign_short split: option.splits)
  qed
qed

subsection \<open>C6: size of the gathered buffer\<close>

lemma length_fill: "length (fill buf written) = length buf"
  by (simp add: fill_def)

text \<open>The body of the \<^verbatim>\<open>with\<close> block of the gather methods.\<close>

lemma gather_with_unfold:
  "gather_with entry name t c n =
     with_ExceptionCheck
       (\<lambda>s. if t = 0 then
               (case new_array s 4 (c * n) of
                  Inl e \<Rightarrow> (Inl e, s)
                | Inr len \<Rightarrow>
                    (let data = replicate len (0 :: int) in
                     (case marshal_text name of
                        Inl e \<Rightarrow> (Inl e, s)
                      | Inr nm \<Rightarrow>
                          (case invoke (entry (lmp s) nm (c_int t) (c_int c) (IntBuf data)) s of
                             (r, s1) \<Rightarrow>
                               (Inr (PyIntArray (fill data (map c_int (out_ints r)))), s1)))))
             else if t = 1 then
               (case new_array s 8 (c * n) of
                  Inl e \<Rightarrow> (Inl e, s)
                | Inr len \<Rightarrow>
                    (let data = replicate len (0 :: real) in
                     (case marshal_text name of
                        Inl e \<Rightarrow> (Inl e, s)
                      | Inr nm \<Rightarrow>
                          (case invoke (entry (lmp s) nm (c_int t) (c_int c) (DoubleBuf data)) s of
                             (r, s1) \<Rightarrow> (Inr (PyDoubleArray (fill data (out_doubles r))), s1)))))
             else (Inr PyNone, s))"
  by (simp add: gather_with_def)

lemma gather_with_shape:
  assumes "fst (gather_with entry name t c n s) = Inr v"
  shows "if t = 0 then (\<exists>xs. v = PyIntArray xs \<and> int (length xs) = c * n)
         else if t = 1 then (\<exists>xs. v = PyDoubleArray xs \<and> int (length xs) = c * n)
         else v = PyNone"
proof -
  note b = with_ExceptionCheck_Inr[OF assms[unfolded gather_with_unfold]]
  show ?thesis
  proof (cases "t = 0")
    case True
    with b show ?thesis
      by (auto simp add: Let_def length_fill case_prod_beta dest!: new_array_Inr
          split: sum.splits)
  next
    case False
    note t0 = this
    show ?thesis
    proof (cases "t = 1")
      case True
      with b show ?thesis
        by (auto simp add: Let_def length_fill case_prod_beta dest!: new_array_Inr
            split: sum.splits)
    next
      case False
      with b t0 show ?thesis by simp
    qed
  qed
qed

lemma gather_with_returns:
  assumes "name \<noteq> Some []"
  shows "new_array s 4 (c * n) = Inr len \<Longrightarrow>
           \<not> shim_raises (snd (invoke (entry (lmp s) name (c_int 0) (c_int c)
                                   (IntBuf (replicate len 0))) s)) \<Longrightarrow>
           \<exists>xs. fst (gather_with entry name 0 c n s) = Inr (PyIntArray xs)
                \<and> int (length xs) = c * n"
    and "new_array s 8 (c * n) = Inr len \<Longrightarrow>
           \<not> shim_raises (snd (invoke (entry (lmp s) name (c_int 1) (c_int c)
                                   (DoubleBuf (replicate len 0))) s)) \<Longrightarrow>
           \<exists>xs. fst (gather_with entry name 1 c n s) = Inr (PyDoubleArray xs)
                \<and> int (length xs) = c * n"
proof -
  have m: "marshal_text name = Inr name"
    using assms by (cases name) simp_all
  show "\<exists>xs. fst (gather_with entry name 0 c n s) = Inr (PyIntArray xs) \<and> int (length xs) = c * n"
    if a: "new_array s 4 (c * n) = Inr len"
      and q: "\<not> shim_raises (snd (invoke (entry (lmp s) name (c_int 0) (c_int c)
                                   (IntBuf (replicate len 0))) s))"
  proof -
    have l: "int len = c * n" using new_array_Inr[OF a] by simp
    show ?thesis
      unfolding gather_with_unfold
      by (subst with_ExceptionCheck_quiet)
         (use q l in \<open>simp_all add: a m Let_def case_prod_beta length_fill\<close>)
  qed
  show "\<exists>xs. fst (gather_with entry name 1 c n s) = Inr (PyDoubleArray xs) \<and> int (length xs) = c * n"
    if a: "new_array s 8 (c * n) = Inr len"
      and q: "\<not> shim_raises (snd (invoke (entry (lmp s) name (c_int 1) (c_int c)
                                   (DoubleBuf (replicate len 0))) s))"
  proof -
    have l: "int len = c * n" using new_array_Inr[OF a] by simp
    show ?thesis
      unfolding gather_with_unfold
      by (subst with_ExceptionCheck_quiet)
         (use q l in \<open>simp_all add: a m Let_def case_prod_beta length_fill\<close>)
  qed
qed

lemma gather_with_other:
  assumes "t \<noteq> 0" "t \<noteq> 1" "\<not> shim_raises s"
  shows "fst (gather_with entry name t c n s) = Inr PyNone"
  unfolding gather_with_unfold
  by (subst with_ExceptionCheck_quiet) (use assms in simp_all)

text \<open>
  Claim C6.  Let \<open>natoms\<close> be the atom count that \<^verbatim>\<open>get_natoms\<close> returns at the start of
  the call (so it is finite), for any of \<^verbatim>\<open>gather\<close>, \<^verbatim>\<open>gather_atoms\<close>, \<^verbatim>\<open>gather_concat\<close> and
  \<^verbatim>\<open>gather_atoms_concat\<close>.  Whenever the call returns, the result is an array of exactly
  \<open>count * natoms\<close> doubles for kind tag 1, an array of exactly \<open>count * natoms\<close> integers
  for kind tag 0, and \<^verbatim>\<open>None\<close> for any other kind tag.  And the call does return such a
  result: for kind tags 1 and 0 when the name is not the empty \<^verbatim>\<open>str\<close>, the array of
  \<open>count * natoms\<close> elements can be created, and the shim finds no engine error after
  the native call; for any other kind tag when the shim finds no engine error.
\<close>

theorem gather_buffer_size:
  fixes s :: "'e lammps"
  assumes f: "(f = gather \<and> entry = Lammps_gather)
       \<or> (f = gather_atoms \<and> entry = Lammps_gather_atoms)
       \<or> (f = gather_concat \<and> entry = Lammps_gather_concat)
       \<or> (f = gather_atoms_concat \<and> entry = Lammps_gather_atoms_concat)"
    and n: "get_natoms s = (Inr natoms, s1)"
  shows "(fst (f name 1 count s) = Inr v \<longrightarrow>
            (\<exists>xs. v = PyDoubleArray xs \<and> int (length xs) = count * natoms))
       \<and> (fst (f name 0 count s) = Inr v \<longrightarrow>
            (\<exists>xs. v = PyIntArray xs \<and> int (length xs) = count * natoms))
       \<and> (type \<noteq> 0 \<and> type \<noteq> 1 \<and> fst (f name type count s) = Inr v \<longrightarrow> v = PyNone)
       \<and> (name \<noteq> Some [] \<and> new_array s1 8 (count * natoms) = Inr len
            \<and> \<not> shim_raises (snd (invoke (entry (lmp s1) name (c_int 1) (c_int count)
                                         (DoubleBuf (replicate len 0))) s1)) \<longrightarrow>
            (\<exists>xs. fst (f name 1 count s) = Inr (PyDoubleArray xs)
                  \<and> int (length xs) = count * natoms))
       \<and> (name \<noteq> Some [] \<and> new_array s1 4 (count * natoms) = Inr len
            \<and> \<not> shim_raises (snd (invoke (entry (lmp s1) name (c_int 0) (c_int count)
                                         (IntBuf (replicate len 0))) s1)) \<longrightarrow>
            (\<exists>xs. fst (f name 0 count s) = Inr (PyIntArray xs)
                  \<and> int (length xs) = count * natoms))
       \<and> (type \<noteq> 0 \<and> type \<noteq> 1 \<and> \<not> shim_raises s1 \<longrightarrow>
            fst (f name type count s) = Inr PyNone)"
proof -
  have e: "f name t count s = gather_with entry name t count natoms s1" for t
    using f n
    by (auto simp add: gather_def gather_atoms_def gather_concat_def gather_atoms_concat_def)
  show ?thesis
    unfolding e
  proof (intro conjI impI)
    assume "fst (gather_with entry name 1 count natoms s1) = Inr v"
    from gather_with_shape[OF this]
    show "\<exists>xs. v = PyDoubleArray xs \<and> int (length xs) = count * natoms" by simp
  next
    assume "fst (gather_with entry name 0 count natoms s1) = Inr v"
    from gather_with_shape[OF this]
    show "\<exists>xs. v = PyIntArray xs \<and> int (length xs) = count * natoms" by simp
  next
    assume a: "type \<noteq> 0 \<and> type \<noteq> 1 \<and> fst (gather_with entry name type count natoms s1) = Inr v"
    then have "fst (gather_with entry name type count natoms s1) = Inr v" by blast
    from gather_with_shape[OF this] a
    show "v = PyNone" by simp
  next
    assume a: "name \<noteq> Some [] \<and> new_array s1 8 (count * natoms) = Inr len
            \<and> \<not> shim_raises (snd (invoke (entry (lmp s1) name (c_int 1) (c_int count)
                                         (DoubleBuf (replicate len 0))) s1))"
    show "\<exists>xs. fst (gather_with entry name 1 count natoms s1) = Inr (PyDoubleArray xs)
                  \<and> int (length xs) = count * natoms"
      by (rule gather_with_returns(2)[of name s1 count natoms len entry]) (use a in blast)+
  next
    assume a: "name \<noteq> Some [] \<and> new_array s1 4 (count * natoms) = Inr len
            \<and> \<not> shim_raises (snd (invoke (entry (lmp s1) name (c_int 0) (c_int count)
                                         (IntBuf (replicate len 0))) s1))"
    show "\<exists>xs. fst (gather_with entry name 0 count natoms s1) = Inr (PyIntArray xs)
                  \<and> int (length xs) = count * natoms"
      by (rule gather_with_returns(1)[of name s1 count natoms len entry]) (use a in blast)+
  next
    assume a: "type \<noteq> 0 \<and> type \<noteq> 1 \<and> \<not> shim_raises s1"
    show "fst (gather_with entry name type count natoms s1) = Inr PyNone"
      by (rule gather_with_other) (use a in blast)+
  qed
qed

theorem gather_buffer_size_witness:
  "get_natoms stub_lammps = (Inr 4, stub_lammps\<lparr>calls := [Lammps_get_natoms (Some 1000)]\<rparr>)
   \<and> (\<exists>xs. fst (gather (Some ''x'') 1 3 stub_lammps) = Inr (PyDoubleArray xs)
            \<and> int (length xs) = 3 * 4)
   \<and> fst (gather (Some ''x'') 1 3 stub_lammps) =
       Inr (PyDoubleArray [1, 2, 3, 4, 5, 6, 7, 8, 9, 10, 11, 12])"
proof -
  let ?s1 = "stub_lammps\<lparr>calls := [Lammps_get_natoms (Some 1000)]\<rparr>"
  have n: "get_natoms stub_lammps = (Inr 4, ?s1)"
    by (simp add: get_natoms_def invoke_def stub_lammps_def stub_ret_def
        py_int_of_float_def)
  have a: "new_array ?s1 8 (3 * 4) = Inr 12"
    by (simp add: new_array_def stub_lammps_def)
  have q: "\<not> shim_raises (snd (invoke (Lammps_gather (lmp ?s1) (Some ''x'') (c_int 1) (c_int 3)
                                         (DoubleBuf (replicate 12 0))) ?s1))"
    by (simp add: shim_raises_def ExceptionCheck_exit_def has_exceptions_def invoke_def
        stub_lammps_def stub_ret_def c_int_def wrap_signed_def)
  have v: "fst (gather (Some ''x'') 1 3 stub_lammps) =
       Inr (PyDoubleArray [1, 2, 3, 4, 5, 6, 7, 8, 9, 10, 11, 12])"
    by (simp add: gather_def get_natoms_def gather_with_def new_array_def c_int_def
      wrap_signed_def with_ExceptionCheck_def
      ExceptionCheck_exit_def has_exceptions_def invoke_def stub_lammps_def stub_ret_def
      py_int_of_float_def fill_def Let_def)
  from gather_buffer_size[where f = gather and entry = Lammps_gather and s = stub_lammps
      and natoms = 4 and ?s1.0 = ?s1 and name = "Some ''x''" and count = 3 and len = 12] n a q v
  show ?thesis by simp
qed

subsection \<open>C8: count, then enumerate\<close>




































subsection \<open>C9: operations after close\<close>

text \<open>As stated, C9 fails: after \<^verbatim>\<open>close\<close>, \<^verbatim>\<open>command("run 0")\<close> on the concrete library
  raises nothing and makes the native call with the null handle.\<close>

theorem command_after_close_counterexample:
  "lmp (close stub_lammps) = None
   \<and> fst (command (Some ''run 0'') (close stub_lammps)) = Inr PyNone
   \<and> calls (snd (command (Some ''run 0'') (close stub_lammps))) =
       [Lammps_close (Some 1000), Lammps_command None ''run 0'',
        Lammps_config_has_exceptions, Lammps_has_error None]"
  by (simp add: command_def close_def with_ExceptionCheck_def ExceptionCheck_exit_def
      has_exceptions_def invoke_def stub_lammps_def stub_ret_def Let_def)

text \<open>Facts about the order of the recorded calls.\<close>

lemma calls_first_iff:
  "calls_first op s c = (\<exists>cs. calls (snd (op s)) = calls s @ c # cs)"
proof
  assume "calls_first op s c"
  then have t: "take (Suc (length (calls s))) (calls (snd (op s))) = calls s @ [c]"
    by (simp add: calls_first_def)
  have "calls (snd (op s)) =
      take (Suc (length (calls s))) (calls (snd (op s)))
      @ drop (Suc (length (calls s))) (calls (snd (op s)))"
    by simp
  then have "calls (snd (op s)) = calls s @ c # drop (Suc (length (calls s))) (calls (snd (op s)))"
    unfolding t by simp
  then show "\<exists>cs. calls (snd (op s)) = calls s @ c # cs" ..
next
  assume "\<exists>cs. calls (snd (op s)) = calls s @ c # cs"
  then show "calls_first op s c" by (auto simp add: calls_first_def)
qed

lemma calls_extend_iff: "calls_extend s s' = (\<exists>cs. calls s' = calls s @ cs)"
proof
  assume "calls_extend s s'"
  then have t: "take (length (calls s)) (calls s') = calls s"
    by (simp add: calls_extend_def)
  have "calls s' = take (length (calls s)) (calls s') @ drop (length (calls s)) (calls s')"
    by simp
  then have "calls s' = calls s @ drop (length (calls s)) (calls s')"
    unfolding t .
  then show "\<exists>cs. calls s' = calls s @ cs" ..
next
  assume "\<exists>cs. calls s' = calls s @ cs"
  then show "calls_extend s s'" by (auto simp add: calls_extend_def)
qed

lemma calls_extend_refl: "calls_extend s s"
  by (simp add: calls_extend_def)

lemma calls_extend_same: "calls s' = calls s \<Longrightarrow> calls_extend s s'"
  by (simp add: calls_extend_def)

lemma calls_extend_trans: "calls_extend a b \<Longrightarrow> calls_extend b c \<Longrightarrow> calls_extend a c"
  unfolding calls_extend_iff by auto

lemma calls_extend_invoke: "calls_extend s (snd (invoke c s))"
  by (simp add: calls_extend_iff invoke_fields)

lemma calls_extend_exit: "calls_extend s (snd (ExceptionCheck_exit s))"
  by (simp add: calls_extend_iff ExceptionCheck_exit_calls Let_def)

lemma calls_extend_shim:
  "calls_extend s (snd (body s)) \<Longrightarrow> calls_extend s (snd (with_ExceptionCheck body s))"
  unfolding with_ExceptionCheck_result(2)
  by (erule calls_extend_trans) (rule calls_extend_exit)

lemma calls_first_then:
  assumes "calls s1 = calls s @ [c]" and "calls_extend s1 (snd (op s))"
  shows "calls_first op s c"
  using assms unfolding calls_first_iff calls_extend_iff by auto

text \<open>A wrapped native call, and a bare one.\<close>

lemma calls_first_shim_invoke:
  "calls_first (with_ExceptionCheck (\<lambda>s. case invoke (c s) s of (r, s1) \<Rightarrow> (g r, s1))) s (c s)"
proof (rule calls_first_then[where ?s1.0 = "snd (invoke (c s) s)"])
  show "calls (snd (invoke (c s) s)) = calls s @ [c s]" by (simp add: invoke_fields)
  show "calls_extend (snd (invoke (c s) s))
     (snd (with_ExceptionCheck (\<lambda>s. case invoke (c s) s of (r, s1) \<Rightarrow> (g r, s1)) s))"
    unfolding with_ExceptionCheck_result(2)
    by (simp add: case_prod_beta calls_extend_exit)
qed

lemma calls_first_invoke:
  "calls_first (\<lambda>s. case invoke (c s) s of (r, s1) \<Rightarrow> (g r, s1)) s (c s)"
  by (simp add: calls_first_def case_prod_beta invoke_fields)

end
